theory Spec2Isabelle
  imports Main "HOL-Library.Sublist"
begin

section \<open>The world the scripts run in\<close>

text \<open>
  The repository is two Python scripts: \<^verbatim>\<open>run_pipeline.py\<close>, the command-line entry point, and
  \<^verbatim>\<open>dashboard/app.py\<close>, a Streamlit page. Both call the five stage functions of the package
  \<^verbatim>\<open>src\<close> (preprocessing, expiry classification, forecasting, risk scoring, recommendation),
  which communicate through CSV files at fixed paths.

  A file holds a table or something \<^verbatim>\<open>pandas.read_csv\<close> cannot parse. A table is its column
  names and its rows of cells; the cells are kept as text.
\<close>

type_synonym path = string

record dataframe =
  columns :: "string list"
  rows :: "string list list"

datatype content = Table dataframe | Unparsable

type_synonym fs = "path \<rightharpoonup> content"

text \<open>
  Python exceptions, by class and message. \<^verbatim>\<open>except Exception\<close> catches every class below
  except \<open>BaseException\<close>, which stands for the classes outside \<^verbatim>\<open>Exception\<close>
  (\<^verbatim>\<open>SystemExit\<close>, \<^verbatim>\<open>KeyboardInterrupt\<close>).
\<close>

datatype exn_class =
  Exception | BaseException | FileNotFoundError | ParserError | KeyError | ValueError | NameError

datatype exn = Exn exn_class string

fun is_Exception :: "exn \<Rightarrow> bool" where
  "is_Exception (Exn c m) = (c \<noteq> BaseException)"

fun str :: "exn \<Rightarrow> string" where
  "str (Exn c m) = m"

text \<open>
  A statement either returns or raises; in both cases it leaves a state behind, since
  whatever was printed, written or rendered before the exception stays.
\<close>

datatype 's outcome = Returned 's | Raised exn 's

fun state_of :: "'s outcome \<Rightarrow> 's" where
  "state_of (Returned s) = s"
| "state_of (Raised e s) = s"

fun is_Returned :: "'s outcome \<Rightarrow> bool" where
  "is_Returned (Returned s) = True"
| "is_Returned (Raised e s) = False"

fun exception_of :: "'s outcome \<Rightarrow> exn option" where
  "exception_of (Returned s) = None"
| "exception_of (Raised e s) = Some e"

text \<open>Statements in sequence: the first exception ends the block.\<close>

fun run :: "('s \<Rightarrow> 's outcome) list \<Rightarrow> 's \<Rightarrow> 's outcome" where
  "run [] s = Returned s"
| "run (stmt # stmts) s =
     (case stmt s of Returned s' \<Rightarrow> run stmts s' | Raised e s' \<Rightarrow> Raised e s')"

text \<open>\<^verbatim>\<open>try: body except Exception as e: handler(e)\<close>\<close>

definition try_except_Exception ::
  "('s \<Rightarrow> 's outcome) \<Rightarrow> (exn \<Rightarrow> 's \<Rightarrow> 's outcome) \<Rightarrow> 's \<Rightarrow> 's outcome" where
  "try_except_Exception body handler s =
     (case body s of
        Returned s' \<Rightarrow> Returned s'
      | Raised e s' \<Rightarrow> if is_Exception e then handler e s' else Raised e s')"

text \<open>
  The five stages. Their modules are not part of the two scripts, so the scripts are modelled
  over arbitrary stage functions: a stage takes the file system and returns or raises, leaving
  a file system behind. Only preprocessing takes an argument, the path of the uploaded file.
\<close>

datatype stage = Preprocessing | ExpiryClassification | Forecasting | RiskScoring | Recommendation

record stages =
  data_preprocessing_main :: "path \<Rightarrow> fs \<Rightarrow> fs outcome"
  predict_expiry_class :: "fs \<Rightarrow> fs outcome"
  forecast_main :: "fs \<Rightarrow> fs outcome"
  risk_main :: "fs \<Rightarrow> fs outcome"
  run_recommendation_pipeline :: "fs \<Rightarrow> fs outcome"

text \<open>
  What a run leaves behind: the files, and a log of the lines it printed and the stages it
  invoked, in the order in which they happened.
\<close>

datatype event = Stdout string | Invoke stage

record world =
  files :: fs
  trace :: "event list"

definition print :: "string \<Rightarrow> 'a world_scheme \<Rightarrow> 'a world_scheme outcome" where
  "print line w = Returned (w\<lparr>trace := trace w @ [Stdout line]\<rparr>)"

definition call :: "stage \<Rightarrow> (fs \<Rightarrow> fs outcome) \<Rightarrow> 'a world_scheme \<Rightarrow> 'a world_scheme outcome" where
  "call name f w =
     (case f (files w) of
        Returned fs' \<Rightarrow> Returned (w\<lparr>files := fs', trace := trace w @ [Invoke name]\<rparr>)
      | Raised e fs' \<Rightarrow> Raised e (w\<lparr>files := fs', trace := trace w @ [Invoke name]\<rparr>))"

fun invocations :: "event list \<Rightarrow> stage list" where
  "invocations [] = []"
| "invocations (Invoke s # es) = s # invocations es"
| "invocations (Stdout l # es) = invocations es"

section \<open>run_pipeline.py\<close>

text \<open>
  The printed lines are kept without their leading emoji and newline, which are not ASCII
  text: \<^verbatim>\<open>print("\n... Step 4: Risk Scoring")\<close> is the line \<open>''Step 4: Risk Scoring''\<close>.
\<close>

definition progress_line :: "stage \<Rightarrow> string" where
  "progress_line s =
     (case s of
        Preprocessing \<Rightarrow> ''Step 1: Data Preprocessing''
      | ExpiryClassification \<Rightarrow> ''Step 2: Predicting Expiry Class (using saved model)''
      | Forecasting \<Rightarrow> ''Step 3: Forecasting (using saved / skip if exists)''
      | RiskScoring \<Rightarrow> ''Step 4: Risk Scoring''
      | Recommendation \<Rightarrow> ''Step 5: Recommendation Engine'')"

definition run_pipeline :: "stages \<Rightarrow> path \<Rightarrow> 'a world_scheme \<Rightarrow> 'a world_scheme outcome" where
  "run_pipeline st uploaded_file_path = run
     [print (progress_line Preprocessing),
      call Preprocessing (data_preprocessing_main st uploaded_file_path),
      print (progress_line ExpiryClassification),
      call ExpiryClassification (predict_expiry_class st),
      print (progress_line Forecasting),
      try_except_Exception
        (call Forecasting (forecast_main st))
        (\<lambda>e. print (''Forecast step skipped: '' @ str e)),
      print (progress_line RiskScoring),
      call RiskScoring (risk_main st),
      print (progress_line Recommendation),
      call Recommendation (run_recommendation_pipeline st),
      print ''Pipeline completed successfully. Output: data/external/recommendations.csv'']"

text \<open>
  The \<^verbatim>\<open>__main__\<close> block: \<open>argv\<close> is \<^verbatim>\<open>sys.argv\<close>, the script name followed by the arguments.
\<close>

definition main :: "stages \<Rightarrow> string list \<Rightarrow> 'a world_scheme \<Rightarrow> 'a world_scheme outcome" where
  "main st argv =
     (if length argv < 2 then print ''Please provide the uploaded CSV path.''
      else run_pipeline st (argv ! 1))"

definition five_stages :: "stage list" where
  "five_stages = [Preprocessing, ExpiryClassification, Forecasting, RiskScoring, Recommendation]"

text \<open>
  A log in which every invocation of a stage comes right after the printed progress line of
  that stage.
\<close>

fun announced :: "event list \<Rightarrow> bool" where
  "announced [] = True"
| "announced (Stdout l # Invoke s # es) = (l = progress_line s \<and> announced es)"
| "announced (Stdout l # es) = announced es"
| "announced (Invoke s # es) = False"

section \<open>dashboard/app.py\<close>

subsection \<open>Tables\<close>

text \<open>
  The operations of the dataframe library that the page uses. A lookup of a column that the
  table does not have raises; a row shorter than the header reads as \<open>NaN\<close> there.
\<close>

fun index_of :: "string \<Rightarrow> string list \<Rightarrow> nat option" where
  "index_of c [] = None"
| "index_of c (x # xs) = (if x = c then Some 0 else map_option Suc (index_of c xs))"

definition cell :: "string list \<Rightarrow> nat \<Rightarrow> string" where
  "cell r i = (if i < length r then r ! i else ''NaN'')"

definition column_values :: "dataframe \<Rightarrow> string \<Rightarrow> string list" where
  "column_values df c =
     (case index_of c (columns df) of None \<Rightarrow> [] | Some i \<Rightarrow> map (\<lambda>r. cell r i) (rows df))"

definition unique :: "string list \<Rightarrow> string list" where
  "unique vs = rev (remdups (rev vs))"

definition head :: "nat \<Rightarrow> dataframe \<Rightarrow> dataframe" where
  "head n df = df\<lparr>rows := take n (rows df)\<rparr>"

definition where_isin :: "string \<Rightarrow> string list \<Rightarrow> dataframe \<Rightarrow> dataframe" where
  "where_isin c allowed df =
     (case index_of c (columns df) of
        None \<Rightarrow> df
      | Some i \<Rightarrow> df\<lparr>rows := filter (\<lambda>r. cell r i \<in> set allowed) (rows df)\<rparr>)"

definition map_column :: "(string \<Rightarrow> string) \<Rightarrow> string \<Rightarrow> dataframe \<Rightarrow> dataframe" where
  "map_column f c df =
     (case index_of c (columns df) of
        None \<Rightarrow> df
      | Some i \<Rightarrow> df\<lparr>rows := map (\<lambda>r. r[i := f (cell r i)]) (rows df)\<rparr>)"

definition select_columns :: "string list \<Rightarrow> dataframe \<Rightarrow> dataframe" where
  "select_columns cs df =
     \<lparr>columns = cs,
      rows = map (\<lambda>r. map (\<lambda>c. case index_of c (columns df) of None \<Rightarrow> ''NaN'' | Some i \<Rightarrow> cell r i) cs)
               (rows df)\<rparr>"

text \<open>
  The mapping \<^verbatim>\<open>{"High": ..., "Medium": ..., "Low": ...}\<close> to coloured squares, written by
  their code points; \<^verbatim>\<open>Series.map\<close> sends every other value to \<open>NaN\<close>.
\<close>

definition risk_badge :: "string \<Rightarrow> string" where
  "risk_badge v =
     (if v = ''High'' then ''U+1F7E5'' else if v = ''Medium'' then ''U+1F7E7''
      else if v = ''Low'' then ''U+1F7E9'' else ''NaN'')"

subsection \<open>The page\<close>

text \<open>
  What a table or chart element shows: a table, or an aggregate (a group-by sum, a count, a
  mean) that is named after the variable or expression of the script and not computed here.
  The bytes of the download are kept as the expression that makes them:
  \<^verbatim>\<open>df.to_csv(index=b).encode(codec)\<close> is \<open>Encode (To_csv df b) codec\<close>.
\<close>

datatype shown = Frame dataframe | Aggregate string

datatype csv_text = To_csv dataframe bool

datatype bytes = Encode csv_text string

datatype widget =
    PageConfig string
  | Markdown string
  | FileUploader string
  | Success string
  | Info string
  | Warning string
  | Error string
  | Subheader string
  | BarChart shown
  | LineChart shown
  | PlotlyChart string
  | Dataframe shown
  | DownloadButton string bytes string string
  | SidebarHeader string
  | SidebarMultiselect string "string list"
  | Metric string string
  | Write string "string list"

text \<open>
  What the browser sends with a rerun: the uploaded file, if any, and the two sidebar
  selections (\<open>None\<close> while the user has not touched them, so that the default applies).
\<close>

record browser =
  uploaded_file :: "content option"
  selected_risk_levels :: "string list option"
  selected_actions :: "string list option"

definition selection :: "string list option \<Rightarrow> string list \<Rightarrow> string list" where
  "selection chosen options = (case chosen of None \<Rightarrow> options | Some vs \<Rightarrow> vs)"

text \<open>
  The state of a rerun: the world, the elements rendered so far, and the script's variables
  that hold tables (\<open>None\<close> while the name is unbound).
\<close>

record session = world +
  rendered :: "widget list"
  uploaded_df :: "dataframe option"
  risk_df :: "dataframe option"
  rec_df :: "dataframe option"
  filtered_df :: "dataframe option"
  forecast_df :: "dataframe option"

definition fresh :: "fs \<Rightarrow> session" where
  "fresh fs0 =
     \<lparr>files = fs0, trace = [], rendered = [], uploaded_df = None, risk_df = None,
      rec_df = None, filtered_df = None, forecast_df = None\<rparr>"

text \<open>Expressions: they read the state and give a value or raise.\<close>

definition read_csv :: "path \<Rightarrow> session \<Rightarrow> exn + dataframe" where
  "read_csv p s =
     (case files s p of
        None \<Rightarrow> Inl (Exn FileNotFoundError p)
      | Some Unparsable \<Rightarrow> Inl (Exn ParserError p)
      | Some (Table df) \<Rightarrow> Inr df)"

definition read_csv_buffer :: "content option \<Rightarrow> session \<Rightarrow> exn + dataframe" where
  "read_csv_buffer buf s =
     (case buf of
        None \<Rightarrow> Inl (Exn ValueError ''Invalid file path or buffer object type'')
      | Some Unparsable \<Rightarrow> Inl (Exn ParserError ''uploaded_file'')
      | Some (Table df) \<Rightarrow> Inr df)"

definition exists :: "path \<Rightarrow> session \<Rightarrow> exn + bool" where
  "exists p s = Inr (files s p \<noteq> None)"

definition with_df ::
  "string \<Rightarrow> (session \<Rightarrow> dataframe option) \<Rightarrow> (dataframe \<Rightarrow> 'a) \<Rightarrow> session \<Rightarrow> exn + 'a" where
  "with_df name var f s =
     (case var s of None \<Rightarrow> Inl (Exn NameError name) | Some df \<Rightarrow> Inr (f df))"

definition has_columns ::
  "string \<Rightarrow> (session \<Rightarrow> dataframe option) \<Rightarrow> string list \<Rightarrow> session \<Rightarrow> exn + bool" where
  "has_columns name var cs = with_df name var (\<lambda>df. list_all (\<lambda>c. c \<in> set (columns df)) cs)"

text \<open>Statements.\<close>

definition emit :: "widget \<Rightarrow> session \<Rightarrow> session outcome" where
  "emit w s = Returned (s\<lparr>rendered := rendered s @ [w]\<rparr>)"

definition render_with ::
  "string \<Rightarrow> (session \<Rightarrow> dataframe option) \<Rightarrow> (dataframe \<Rightarrow> widget) \<Rightarrow> session \<Rightarrow> session outcome" where
  "render_with name var mk s =
     (case var s of None \<Rightarrow> Raised (Exn NameError name) s | Some df \<Rightarrow> emit (mk df) s)"

definition assign ::
  "((dataframe option \<Rightarrow> dataframe option) \<Rightarrow> session \<Rightarrow> session) \<Rightarrow> (session \<Rightarrow> exn + dataframe)
     \<Rightarrow> session \<Rightarrow> session outcome" where
  "assign upd e s = (case e s of Inl x \<Rightarrow> Raised x s | Inr v \<Rightarrow> Returned (upd (\<lambda>_. Some v) s))"

text \<open>
  \<open>need name var cls cs\<close>: the column lookups of an expression whose value only feeds
  an aggregate. It raises \<open>NameError\<close> when the variable is unbound and an exception of class
  \<open>cls\<close> for the first of the columns \<open>cs\<close> that the table lacks. The page can fail in
  the ways modelled here: an exception of a stage, an unreadable or missing file, a missing
  column, an unbound name. What an aggregate makes of the cells (a mean of a column of text)
  is left out, as are failures of the operating system (\<^verbatim>\<open>os.makedirs\<close>, a full disk).
\<close>

definition need ::
  "string \<Rightarrow> (session \<Rightarrow> dataframe option) \<Rightarrow> exn_class \<Rightarrow> string list \<Rightarrow> session \<Rightarrow> session outcome" where
  "need name var cls cs s =
     (case var s of
        None \<Rightarrow> Raised (Exn NameError name) s
      | Some df \<Rightarrow>
          (case filter (\<lambda>c. c \<notin> set (columns df)) cs of
             [] \<Rightarrow> Returned s
           | c # _ \<Rightarrow> Raised (Exn cls c) s))"

definition if_else ::
  "(session \<Rightarrow> exn + bool) \<Rightarrow> (session \<Rightarrow> session outcome) list \<Rightarrow> (session \<Rightarrow> session outcome) list
     \<Rightarrow> session \<Rightarrow> session outcome" where
  "if_else c thens elses s =
     (case c s of Inl x \<Rightarrow> Raised x s | Inr b \<Rightarrow> if b then run thens s else run elses s)"

text \<open>\<^verbatim>\<open>uploaded_df.to_csv(uploaded_file_path, index=False)\<close>\<close>

definition to_csv_file ::
  "string \<Rightarrow> (session \<Rightarrow> dataframe option) \<Rightarrow> path \<Rightarrow> session \<Rightarrow> session outcome" where
  "to_csv_file name var p s =
     (case var s of
        None \<Rightarrow> Raised (Exn NameError name) s
      | Some df \<Rightarrow> Returned (s\<lparr>files := (files s)(p \<mapsto> Table df)\<rparr>))"

definition uploaded_file_path :: path where
  "uploaded_file_path = ''data/raw/uploaded_inventory.csv''"

definition risk_scores_csv :: path where
  "risk_scores_csv = ''data/external/risk_scores.csv''"

definition rec_file :: path where
  "rec_file = ''data/external/recommendations.csv''"

definition forecast_csv :: path where
  "forecast_csv = ''forecasts/product_level/all_products_forecast.csv''"

text \<open>
  Lines 94 to 98, under the comment \<^verbatim>\<open># Run the pipeline silently\<close>: four stage calls, none of
  them inside a \<^verbatim>\<open>try\<close>. The script imports \<^verbatim>\<open>predict_expiry_class\<close> and never calls it.
\<close>

definition app_pipeline :: "stages \<Rightarrow> 'a world_scheme \<Rightarrow> 'a world_scheme outcome" where
  "app_pipeline st = run
     [call Preprocessing (data_preprocessing_main st uploaded_file_path),
      call Forecasting (forecast_main st),
      call RiskScoring (risk_main st),
      call Recommendation (run_recommendation_pipeline st)]"

text \<open>Lines 86 to 98.\<close>

definition upload_section :: "stages \<Rightarrow> browser \<Rightarrow> session \<Rightarrow> session outcome" where
  "upload_section st inp = run
     [emit (Success ''File uploaded successfully!''),
      assign uploaded_df_update (read_csv_buffer (uploaded_file inp)),
      to_csv_file ''uploaded_df'' uploaded_df uploaded_file_path,
      app_pipeline st]"

text \<open>Lines 101 to 103.\<close>

definition risk_levels_section :: "session \<Rightarrow> session outcome" where
  "risk_levels_section = run
     [emit (Subheader ''Risk Levels''),
      assign risk_df_update (read_csv risk_scores_csv),
      need ''risk_df'' risk_df KeyError [''Risk_Level''],
      emit (BarChart (Aggregate ''risk_df[Risk_Level].value_counts()''))]"

text \<open>Lines 105 to 138.\<close>

definition download_button :: "dataframe \<Rightarrow> widget" where
  "download_button df =
     DownloadButton ''Download Recommendations CSV'' (Encode (To_csv df False) ''utf-8'')
       ''recommendations.csv'' ''text/csv''"

definition recommendations_missing :: widget where
  "recommendations_missing = Warning ''Recommendations file not found.''"

text \<open>Lines 119 to 136, the block \<^verbatim>\<open># --- Additional Insights ---\<close> of the branch.\<close>

definition additional_insights :: "session \<Rightarrow> session outcome" where
  "additional_insights = run
     [emit (Subheader ''Insights from Recommendations''),
      emit (Subheader ''Top 10 Products with Highest Stock Quantity''),
      need ''rec_df'' rec_df KeyError [''Product_Name'', ''Stock_Quantity''],
      emit (BarChart (Aggregate ''top_demand_products'')),
      emit (Subheader ''Action Distribution by Risk Level''),
      need ''rec_df'' rec_df KeyError [''Risk_Level'', ''Predicted_Action''],
      emit (Dataframe (Aggregate ''action_risk_distribution'')),
      if_else (has_columns ''rec_df'' rec_df [''Predicted_Discount_Percent'', ''Category''])
        [emit (Subheader ''Average Discount by Product Category''),
         emit (BarChart (Aggregate ''avg_discount_category''))]
        []]"

definition recommendations_section :: "session \<Rightarrow> session outcome" where
  "recommendations_section = run
     [emit (Subheader ''Recommendations''),
      if_else (exists rec_file)
        [assign rec_df_update (read_csv rec_file),
         render_with ''rec_df'' rec_df (\<lambda>df. Dataframe (Frame (head 10 df))),
         render_with ''rec_df'' rec_df download_button,
         additional_insights]
        [emit recommendations_missing]]"

text \<open>Lines 141 to 203.\<close>

definition filter_by_actions :: "browser \<Rightarrow> session \<Rightarrow> exn + dataframe" where
  "filter_by_actions inp s =
     (case rec_df s of
        None \<Rightarrow> Inl (Exn NameError ''rec_df'')
      | Some rec \<Rightarrow>
          with_df ''filtered_df'' filtered_df
            (where_isin ''Predicted_Action''
               (selection (selected_actions inp) (unique (column_values rec ''Predicted_Action''))))
            s)"

definition enhanced_insights_section :: "browser \<Rightarrow> session \<Rightarrow> session outcome" where
  "enhanced_insights_section inp = run
     [emit (Subheader ''Enhanced Insights and Filters''),
      if_else (exists rec_file)
        [assign rec_df_update (read_csv rec_file),
         emit (SidebarHeader ''Filter Options''),
         need ''rec_df'' rec_df KeyError [''Risk_Level''],
         render_with ''rec_df'' rec_df
           (\<lambda>df. SidebarMultiselect ''Select Risk Levels'' (unique (column_values df ''Risk_Level''))),
         assign filtered_df_update
           (with_df ''rec_df'' rec_df
              (\<lambda>df. where_isin ''Risk_Level''
                 (selection (selected_risk_levels inp) (unique (column_values df ''Risk_Level''))) df)),
         need ''rec_df'' rec_df KeyError [''Predicted_Action''],
         render_with ''rec_df'' rec_df
           (\<lambda>df. SidebarMultiselect ''Select Actions'' (unique (column_values df ''Predicted_Action''))),
         assign filtered_df_update (filter_by_actions inp),
         render_with ''filtered_df'' filtered_df (\<lambda>df. Dataframe (Frame (head 20 df))),
         emit (Subheader ''Stock Quantity by Risk Level''),
         need ''filtered_df'' filtered_df KeyError [''Risk_Level'', ''Stock_Quantity''],
         emit (BarChart (Aggregate ''stock_by_risk'')),
         if_else (has_columns ''filtered_df'' filtered_df [''Predicted_Discount_Percent''])
           [emit (Subheader ''Average Discount by Risk Level''),
            need ''filtered_df'' filtered_df KeyError [''Risk_Level'', ''Predicted_Discount_Percent''],
            emit (BarChart (Aggregate ''avg_discount_risk''))]
           [],
         emit (Subheader ''Top Products by Stock Quantity''),
         need ''filtered_df'' filtered_df KeyError [''Product_Name'', ''Stock_Quantity''],
         emit (Dataframe (Aggregate ''top_products'')),
         emit (Subheader ''Enhanced Visualizations''),
         emit (Subheader ''Risk Level Distribution''),
         need ''rec_df'' rec_df KeyError [''Risk_Level''],
         emit (PlotlyChart ''Risk Level Distribution''),
         emit (Subheader ''Stock Quantity Over Risk Levels''),
         need ''rec_df'' rec_df KeyError [''Risk_Level'', ''Stock_Quantity''],
         emit (PlotlyChart ''Stock Quantity by Risk Level'')]
        []]"

text \<open>
  Lines 205 to 213. \<^verbatim>\<open>st.columns(3)\<close> lays the three cards out side by side and renders
  nothing by itself.
\<close>

definition key_metrics_heading :: widget where
  "key_metrics_heading = Markdown ''<h2 style='text-align: center;'>Key Metrics</h2>''"

definition key_metrics :: "widget list" where
  "key_metrics =
     [Metric ''Total Products'' ''1,000'', Metric ''Expired Items'' ''50'',
      Metric ''Near-Expiry Items'' ''200'']"

definition key_metrics_section :: "session \<Rightarrow> session outcome" where
  "key_metrics_section = run
     [emit key_metrics_heading,
      emit (Metric ''Total Products'' ''1,000''),
      emit (Metric ''Expired Items'' ''50''),
      emit (Metric ''Near-Expiry Items'' ''200'')]"

text \<open>Lines 215 to 221.\<close>

definition predictive_insights_section :: "browser \<Rightarrow> session \<Rightarrow> session outcome" where
  "predictive_insights_section inp = run
     [emit (Markdown ''<h2 style='text-align: center;'>Predictive Insights</h2>''),
      if_else (\<lambda>s. Inr (uploaded_file inp \<noteq> None))
        [emit (Subheader ''Expiry Prediction Table''),
         if_else (has_columns ''uploaded_df'' uploaded_df [''Risk_Level''])
           [assign uploaded_df_update
              (with_df ''uploaded_df'' uploaded_df (map_column risk_badge ''Risk_Level''))]
           [],
         render_with ''uploaded_df'' uploaded_df (\<lambda>df. Dataframe (Frame (head 10 df)))]
        []]"

text \<open>Lines 223 to 234.\<close>

definition forecasting_heading :: widget where
  "forecasting_heading =
     Markdown ''<h2 style='text-align: center;'>Forecasting & Trend Analysis</h2>''"

definition date_missing :: widget where
  "date_missing =
     Error ''The 'Date' column is missing in the forecast data. Please check the CSV file.''"

definition forecasting_section :: "session \<Rightarrow> session outcome" where
  "forecasting_section = run
     [emit forecasting_heading,
      assign forecast_df_update (read_csv forecast_csv),
      render_with ''forecast_df'' forecast_df (\<lambda>df. Write ''Forecast DataFrame Columns:'' (columns df)),
      if_else (has_columns ''forecast_df'' forecast_df [''Date''])
        [emit (LineChart (Aggregate ''forecast_df.set_index(Date)''))]
        [emit date_missing]]"

text \<open>Lines 236 to 245.\<close>

definition risk_scoring_heading :: widget where
  "risk_scoring_heading = Markdown ''<h2 style='text-align: center;'>Risk Scoring Insights</h2>''"

definition risk_score_missing :: widget where
  "risk_score_missing =
     Error ''The 'Risk_Score' column is missing in the uploaded data. Please check the data or preprocessing pipeline.''"

definition risk_scoring_section :: "session \<Rightarrow> session outcome" where
  "risk_scoring_section = run
     [emit risk_scoring_heading,
      render_with ''uploaded_df'' uploaded_df (\<lambda>df. Write ''Uploaded DataFrame Columns:'' (columns df)),
      if_else (has_columns ''uploaded_df'' uploaded_df [''Risk_Score''])
        [need ''uploaded_df'' uploaded_df ValueError [''Category'', ''Risk_Score'', ''Risk_Level''],
         emit (PlotlyChart ''box(uploaded_df, x=Category, y=Risk_Score, color=Risk_Level)'')]
        [emit risk_score_missing]]"

text \<open>Lines 247 to 252: \<^verbatim>\<open>rec_df\<close> is read here outside every existence check.\<close>

definition optimization_heading :: widget where
  "optimization_heading =
     Markdown ''<h2 style='text-align: center;'>Optimization & Recommendations</h2>''"

definition optimization_section :: "session \<Rightarrow> session outcome" where
  "optimization_section = run
     [emit optimization_heading,
      if_else (has_columns ''rec_df'' rec_df [''Predicted_Discount_Percent''])
        [need ''rec_df'' rec_df KeyError
           [''Product_Name'', ''Predicted_Action'', ''Predicted_Discount_Percent''],
         render_with ''rec_df'' rec_df
           (\<lambda>df. Dataframe (Frame (head 10 (select_columns
              [''Product_Name'', ''Predicted_Action'', ''Predicted_Discount_Percent''] df))))]
        [need ''rec_df'' rec_df KeyError [''Product_Name'', ''Predicted_Action''],
         render_with ''rec_df'' rec_df
           (\<lambda>df. Dataframe (Frame (head 10 (select_columns
              [''Product_Name'', ''Predicted_Action''] df))))]]"

text \<open>Line 255.\<close>

definition footer :: widget where
  "footer =
     Markdown ''<footer style='text-align: center;'>Version 1.0 | Last Updated: October 8, 2025</footer>''"

text \<open>
  The whole script, run once per interaction. The style sheet and the two introductory
  paragraphs are abbreviated to their first words.
\<close>

definition display_sections :: "browser \<Rightarrow> (session \<Rightarrow> session outcome) list" where
  "display_sections inp =
     [risk_levels_section,
      recommendations_section,
      enhanced_insights_section inp,
      key_metrics_section,
      predictive_insights_section inp,
      forecasting_section,
      risk_scoring_section,
      optimization_section,
      emit footer]"

definition page_header :: "widget list" where
  "page_header =
     [PageConfig ''Inventory Insights Dashboard'',
      Markdown ''<style>'',
      Markdown ''<h1>Inventory Insights Dashboard</h1>'',
      Markdown ''Upload your inventory CSV to get actionable insights'',
      FileUploader ''Upload Inventory CSV'']"

definition app :: "stages \<Rightarrow> browser \<Rightarrow> session \<Rightarrow> session outcome" where
  "app st inp = run
     [emit (PageConfig ''Inventory Insights Dashboard''),
      emit (Markdown ''<style>''),
      emit (Markdown ''<h1>Inventory Insights Dashboard</h1>''),
      emit (Markdown ''Upload your inventory CSV to get actionable insights''),
      emit (FileUploader ''Upload Inventory CSV''),
      if_else (\<lambda>s. Inr (uploaded_file inp \<noteq> None))
        (upload_section st inp # display_sections inp)
        [emit (Info ''Please upload a CSV file to get started.'')]]"

section \<open>The stages, as the specification describes them\<close>

text \<open>
  Modelled from the spec: the risk scorer (\<^verbatim>\<open>src/risk_scoring.py\<close>) is not among the
  sources. A risk record is a product with a numeric score and a level; the level is one of
  three ordered categories, derived from the score through two fixed thresholds. The spec
  leaves the thresholds and the side of a score equal to one open: they are parameters here,
  and a score equal to a threshold belongs to the higher category. The three names are those
  the page maps to coloured squares (\<open>risk_badge\<close>).
\<close>

datatype risk_level = Low | Medium | High

fun rank :: "risk_level \<Rightarrow> nat" where
  "rank Low = 0"
| "rank Medium = 1"
| "rank High = 2"

definition risk_level_of :: "'a::linorder \<Rightarrow> 'a \<Rightarrow> 'a \<Rightarrow> risk_level" where
  "risk_level_of medium_from high_from score =
     (if score < medium_from then Low else if score < high_from then Medium else High)"

record 'a risk_record =
  product :: string
  Risk_Score :: 'a
  Risk_Level :: risk_level

definition risk_table :: "'a::linorder \<Rightarrow> 'a \<Rightarrow> (string \<times> 'a) list \<Rightarrow> 'a risk_record list" where
  "risk_table medium_from high_from scores =
     map (\<lambda>(p, s). \<lparr>product = p, Risk_Score = s, Risk_Level = risk_level_of medium_from high_from s\<rparr>)
       scores"

text \<open>
  Modelled from the spec: the recommender (\<^verbatim>\<open>src/recommendations/recommend.py\<close>) is not among
  the sources. A recommendation is derived from a risk record and the forecast points of the
  same product identifier; the rule that picks the action and the discount is a parameter. A
  risk record whose product has no forecast point gives no recommendation.
\<close>

record 'q forecast_point =
  fc_product :: string
  date :: string
  predicted_quantity :: 'q

record 'd recommendation =
  rec_product :: string
  Predicted_Action :: string
  Predicted_Discount_Percent :: 'd

definition recommend ::
  "('a risk_record \<Rightarrow> 'q forecast_point list \<Rightarrow> string \<times> 'd) \<Rightarrow> 'a risk_record list
     \<Rightarrow> 'q forecast_point list \<Rightarrow> 'd recommendation list" where
  "recommend decide risks forecasts =
     concat (map (\<lambda>r.
       (case filter (\<lambda>f. fc_product f = product r) forecasts of
          [] \<Rightarrow> []
        | fps \<Rightarrow>
            [\<lparr>rec_product = product r, Predicted_Action = fst (decide r fps),
              Predicted_Discount_Percent = snd (decide r fps)\<rparr>])) risks)"

text \<open>
  Modelled from the spec: the five stage modules are not among the sources. Each stage reads
  the CSV files at its fixed input paths, applies a deterministic transform and writes one CSV
  at its fixed output path, overwriting it; a stage that fails raises and writes nothing. The
  transforms are parameters. Preprocessing reads the uploaded file and writes the processed
  data; the classifier adds its column to the processed data in place; the forecaster and the
  risk scorer read the processed data; the recommender reads the risk scores and the
  forecast. The path of the processed data does not occur in the two scripts and is a
  parameter too.
\<close>

definition file_stage ::
  "path list \<Rightarrow> path \<Rightarrow> (content option list \<Rightarrow> exn + dataframe) \<Rightarrow> fs \<Rightarrow> fs outcome" where
  "file_stage inputs output transform fs =
     (case transform (map fs inputs) of
        Inl e \<Rightarrow> Raised e fs
      | Inr df \<Rightarrow> Returned (fs(output \<mapsto> Table df)))"

record transforms =
  preprocess :: "content option list \<Rightarrow> exn + dataframe"
  classify :: "content option list \<Rightarrow> exn + dataframe"
  forecast :: "content option list \<Rightarrow> exn + dataframe"
  score :: "content option list \<Rightarrow> exn + dataframe"
  advise :: "content option list \<Rightarrow> exn + dataframe"

definition spec_stages :: "transforms \<Rightarrow> path \<Rightarrow> stages" where
  "spec_stages T processed_csv =
     \<lparr>data_preprocessing_main = (\<lambda>p. file_stage [p] processed_csv (preprocess T)),
      predict_expiry_class = file_stage [processed_csv] processed_csv (classify T),
      forecast_main = file_stage [processed_csv] forecast_csv (forecast T),
      risk_main = file_stage [processed_csv] risk_scores_csv (score T),
      run_recommendation_pipeline = file_stage [risk_scores_csv, forecast_csv] rec_file (advise T)\<rparr>"

section \<open>Example runs\<close>

text \<open>A one-product inventory and stages that write small tables, for concrete runs.\<close>

definition ex_inventory :: dataframe where
  "ex_inventory =
     \<lparr>columns = [''Product_Name'', ''Category'', ''Stock_Quantity''],
      rows = [[''Milk'', ''Dairy'', ''12'']]\<rparr>"

definition ex_risk :: dataframe where
  "ex_risk =
     \<lparr>columns = [''Product_Name'', ''Risk_Score'', ''Risk_Level''],
      rows = [[''Milk'', ''0.9'', ''High'']]\<rparr>"

definition ex_forecast :: dataframe where
  "ex_forecast = \<lparr>columns = [''Date'', ''Milk''], rows = [[''2025-10-09'', ''3'']]\<rparr>"

definition ex_recs :: dataframe where
  "ex_recs =
     \<lparr>columns = [''Product_Name'', ''Category'', ''Stock_Quantity'', ''Risk_Level'',
                 ''Predicted_Action'', ''Predicted_Discount_Percent''],
      rows = [[''Milk'', ''Dairy'', ''12'', ''High'', ''Discount'', ''30'']]\<rparr>"

definition writes :: "path \<Rightarrow> dataframe \<Rightarrow> fs \<Rightarrow> fs outcome" where
  "writes p df fs = Returned (fs(p \<mapsto> Table df))"

definition ex_stages :: stages where
  "ex_stages =
     \<lparr>data_preprocessing_main = (\<lambda>p. writes ''data/processed/processed_data.csv'' ex_inventory),
      predict_expiry_class = Returned,
      forecast_main = writes forecast_csv ex_forecast,
      risk_main = writes risk_scores_csv ex_risk,
      run_recommendation_pipeline = writes rec_file ex_recs\<rparr>"

definition ex_upload :: browser where
  "ex_upload =
     \<lparr>uploaded_file = Some (Table ex_inventory), selected_risk_levels = None,
      selected_actions = None\<rparr>"

text \<open>The forecaster fails with an ordinary exception.\<close>

definition ex_forecast_fails :: stages where
  "ex_forecast_fails = ex_stages\<lparr>forecast_main := Raised (Exn Exception ''no sales history'')\<rparr>"

text \<open>The recommender returns without writing its file.\<close>

definition ex_no_recs :: stages where
  "ex_no_recs = ex_stages\<lparr>run_recommendation_pipeline := Returned\<rparr>"

text \<open>The risk scorer, or the forecaster, returns without writing its file.\<close>

definition ex_no_risk :: stages where
  "ex_no_risk = ex_stages\<lparr>risk_main := Returned\<rparr>"

definition ex_no_forecast :: stages where
  "ex_no_forecast = ex_stages\<lparr>forecast_main := Returned\<rparr>"

text \<open>The forecaster writes a table that has no column \<open>Date\<close>.\<close>

definition ex_undated :: stages where
  "ex_undated =
     ex_stages\<lparr>forecast_main :=
       writes forecast_csv \<lparr>columns = [''ds'', ''yhat''], rows = [[''2025-10-09'', ''3'']]\<rparr>\<rparr>"

text \<open>
  Transforms for a concrete run of the stages as specified: the forecaster fails, the other
  stages give the example tables.
\<close>

definition ex_transforms :: transforms where
  "ex_transforms =
     \<lparr>preprocess = (\<lambda>ins. case ins of
          [Some (Table df)] \<Rightarrow> Inr df
        | _ \<Rightarrow> Inl (Exn FileNotFoundError ''uploaded file'')),
      classify = (\<lambda>ins. case ins of
          [Some (Table df)] \<Rightarrow> Inr (df\<lparr>columns := columns df @ [''Expiry_Class''],
            rows := map (\<lambda>r. r @ [''Fresh'']) (rows df)\<rparr>)
        | _ \<Rightarrow> Inl (Exn FileNotFoundError ''processed data'')),
      forecast = (\<lambda>ins. Inl (Exn Exception ''no sales history'')),
      score = (\<lambda>ins. Inr ex_risk),
      advise = (\<lambda>ins. Inr ex_recs)\<rparr>"

definition ex_disk :: world where
  "ex_disk = \<lparr>files = [''inventory.csv'' \<mapsto> Table ex_inventory], trace = []\<rparr>"

text \<open>The files of the example after each stage, from an empty file system.\<close>

definition ex_processed :: fs where
  "ex_processed = [''data/processed/processed_data.csv'' \<mapsto> Table ex_inventory]"

definition ex_forecasted :: fs where
  "ex_forecasted = ex_processed(forecast_csv \<mapsto> Table ex_forecast)"

definition empty_world :: world where
  "empty_world = \<lparr>files = Map.empty, trace = []\<rparr>"

section \<open>Reasoning about scripts\<close>

text \<open>
  Two judgements about a statement of the page, used in the proofs below: it only appends
  elements, each of which satisfies \<open>P\<close>; and it leaves a component of the state alone.
\<close>

definition adds :: "(widget \<Rightarrow> bool) \<Rightarrow> (session \<Rightarrow> session outcome) \<Rightarrow> bool" where
  "adds P f \<longleftrightarrow> (\<forall>s. \<exists>ws. rendered (state_of (f s)) = rendered s @ ws \<and> (\<forall>w\<in>set ws. P w))"

definition keeps :: "(session \<Rightarrow> 'a) \<Rightarrow> (session \<Rightarrow> session outcome) \<Rightarrow> bool" where
  "keeps sel f \<longleftrightarrow> (\<forall>s. sel (state_of (f s)) = sel s)"

text \<open>A third judgement: every exception the statement raises satisfies \<open>E\<close>.\<close>

definition raises :: "(exn \<Rightarrow> bool) \<Rightarrow> (session \<Rightarrow> session outcome) \<Rightarrow> bool" where
  "raises E f \<longleftrightarrow> (\<forall>s e s'. f s = Raised e s' \<longrightarrow> E e)"

fun is_Metric :: "widget \<Rightarrow> bool" where
  "is_Metric (Metric l v) = True"
| "is_Metric w = False"

fun is_DownloadButton :: "widget \<Rightarrow> bool" where
  "is_DownloadButton (DownloadButton l d f m) = True"
| "is_DownloadButton w = False"

text \<open>The stages that the page invokes, in the order of its calls.\<close>

definition four_stages_of_the_page :: "stage list" where
  "four_stages_of_the_page = [Preprocessing, Forecasting, RiskScoring, Recommendation]"

lemmas stmt_defs = print_def call_def try_except_Exception_def

lemma run_append:
  "run (xs @ ys) s = (case run xs s of Returned s' \<Rightarrow> run ys s' | Raised e s' \<Rightarrow> Raised e s')"
  by (induction xs arbitrary: s) (auto split: outcome.splits)

lemma is_ReturnedD: "is_Returned r \<Longrightarrow> \<exists>x. r = Returned x"
  by (cases r) auto

lemma run_returns:
  "(\<And>f s. f \<in> set fs \<Longrightarrow> is_Returned (f s)) \<Longrightarrow> is_Returned (run fs s)"
proof (induction fs arbitrary: s)
  case Nil
  show ?case by simp
next
  case (Cons f fs)
  from Cons.prems[of f s] obtain s' where "f s = Returned s'"
    by (cases "f s") auto
  with Cons show ?case by simp
qed

section \<open>The command-line entry point\<close>

text \<open>
  C3. Given a path argument, the entry point invokes the five stages in the order
  preprocessing, expiry classification, forecasting, risk scoring, recommendation, and prints
  the progress line of a stage right before it invokes it.
  \<^item> In the log, every invocation follows the progress line of its stage, and the stages
    invoked are an initial part of that order; they are all five whenever the run returns,
    and the run returns whenever the four stages outside the \<^verbatim>\<open>try\<close> return and the
    forecaster raises nothing outside \<^verbatim>\<open>Exception\<close>.
  \<^item> To invoke a stage is to apply its function: preprocessing is applied to the path
    argument and the files at the start, every later stage to the files the stage before it
    left. When all five return, the run returns the files the recommender left, having
    printed and invoked in exactly the order of the script; when the forecaster raises an
    \<^verbatim>\<open>Exception\<close>, risk scoring is applied to the files the forecaster left.
  \<^item> The exception and the files a run ends with are, in every case, those of the stage
    functions applied in this order.
\<close>

theorem main_invokes_five_stages_in_order:
  assumes "2 \<le> length argv" and "trace w = []"
  shows "announced (trace (state_of (main st argv w))) \<and>
         prefix (invocations (trace (state_of (main st argv w)))) five_stages \<and>
         (is_Returned (main st argv w) \<longrightarrow>
            invocations (trace (state_of (main st argv w))) = five_stages) \<and>
         ((\<forall>fs. is_Returned (data_preprocessing_main st (argv ! 1) fs)) \<and>
          (\<forall>fs. is_Returned (predict_expiry_class st fs)) \<and>
          (\<forall>fs e fs'. forecast_main st fs = Raised e fs' \<longrightarrow> is_Exception e) \<and>
          (\<forall>fs. is_Returned (risk_main st fs)) \<and>
          (\<forall>fs. is_Returned (run_recommendation_pipeline st fs))
            \<longrightarrow> is_Returned (main st argv w)) \<and>
         (data_preprocessing_main st (argv ! 1) (files w) = Returned fa \<and>
          predict_expiry_class st fa = Returned fb \<and>
          forecast_main st fb = Returned fc \<and>
          risk_main st fc = Returned fd \<and>
          run_recommendation_pipeline st fd = Returned fe
            \<longrightarrow> main st argv w =
              Returned (w\<lparr>files := fe,
                trace :=
                  [Stdout ''Step 1: Data Preprocessing'', Invoke Preprocessing,
                   Stdout ''Step 2: Predicting Expiry Class (using saved model)'',
                   Invoke ExpiryClassification,
                   Stdout ''Step 3: Forecasting (using saved / skip if exists)'',
                   Invoke Forecasting,
                   Stdout ''Step 4: Risk Scoring'', Invoke RiskScoring,
                   Stdout ''Step 5: Recommendation Engine'', Invoke Recommendation,
                   Stdout ''Pipeline completed successfully. Output: data/external/recommendations.csv'']\<rparr>)) \<and>
         (data_preprocessing_main st (argv ! 1) (files w) = Returned fa \<and>
          predict_expiry_class st fa = Returned fb \<and>
          forecast_main st fb = Raised e fc \<and> is_Exception e \<and>
          risk_main st fc = Returned fd \<and>
          run_recommendation_pipeline st fd = Returned fe
            \<longrightarrow> main st argv w =
              Returned (w\<lparr>files := fe,
                trace :=
                  [Stdout ''Step 1: Data Preprocessing'', Invoke Preprocessing,
                   Stdout ''Step 2: Predicting Expiry Class (using saved model)'',
                   Invoke ExpiryClassification,
                   Stdout ''Step 3: Forecasting (using saved / skip if exists)'',
                   Invoke Forecasting, Stdout (''Forecast step skipped: '' @ str e),
                   Stdout ''Step 4: Risk Scoring'', Invoke RiskScoring,
                   Stdout ''Step 5: Recommendation Engine'', Invoke Recommendation,
                   Stdout ''Pipeline completed successfully. Output: data/external/recommendations.csv'']\<rparr>)) \<and>
         exception_of (main st argv w) =
           (case data_preprocessing_main st (argv ! 1) (files w) of
              Raised x f \<Rightarrow> Some x
            | Returned f1 \<Rightarrow>
                (case predict_expiry_class st f1 of
                   Raised x f \<Rightarrow> Some x
                 | Returned f2 \<Rightarrow>
                     (case forecast_main st f2 of
                        Raised x f3 \<Rightarrow>
                          if is_Exception x then
                            (case risk_main st f3 of
                               Raised y f \<Rightarrow> Some y
                             | Returned f4 \<Rightarrow> exception_of (run_recommendation_pipeline st f4))
                          else Some x
                      | Returned f3 \<Rightarrow>
                          (case risk_main st f3 of
                             Raised y f \<Rightarrow> Some y
                           | Returned f4 \<Rightarrow> exception_of (run_recommendation_pipeline st f4))))) \<and>
         files (state_of (main st argv w)) =
           (case data_preprocessing_main st (argv ! 1) (files w) of
              Raised x f \<Rightarrow> f
            | Returned f1 \<Rightarrow>
                (case predict_expiry_class st f1 of
                   Raised x f \<Rightarrow> f
                 | Returned f2 \<Rightarrow>
                     (case forecast_main st f2 of
                        Raised x f3 \<Rightarrow>
                          if is_Exception x then
                            (case risk_main st f3 of
                               Raised y f \<Rightarrow> f
                             | Returned f4 \<Rightarrow> state_of (run_recommendation_pipeline st f4))
                          else f3
                      | Returned f3 \<Rightarrow>
                          (case risk_main st f3 of
                             Raised y f \<Rightarrow> f
                           | Returned f4 \<Rightarrow> state_of (run_recommendation_pipeline st f4)))))"
proof -
  have m: "main st argv w = run_pipeline st (argv ! 1) w"
    using assms(1) by (simp add: main_def)
  have 1: "announced (trace (state_of (run_pipeline st p w)))" for p
    using assms(2)
    by (auto simp add: run_pipeline_def stmt_defs progress_line_def split: outcome.splits)
  have 2: "prefix (invocations (trace (state_of (run_pipeline st p w)))) five_stages" for p
    using assms(2)
    by (auto simp add: run_pipeline_def stmt_defs five_stages_def split: outcome.splits)
  have 3: "is_Returned (run_pipeline st p w) \<Longrightarrow>
      invocations (trace (state_of (run_pipeline st p w))) = five_stages" for p
    using assms(2)
    by (auto simp add: run_pipeline_def stmt_defs five_stages_def split: outcome.splits if_splits)
  have 4: "is_Returned (run_pipeline st p w)"
    if h1: "\<forall>fs. is_Returned (data_preprocessing_main st p fs)"
      and h2: "\<forall>fs. is_Returned (predict_expiry_class st fs)"
      and h3: "\<forall>fs e fs'. forecast_main st fs = Raised e fs' \<longrightarrow> is_Exception e"
      and h4: "\<forall>fs. is_Returned (risk_main st fs)"
      and h5: "\<forall>fs. is_Returned (run_recommendation_pipeline st fs)" for p
  proof -
    have c: "is_Returned (call n f v)" if "\<forall>fs. is_Returned (f fs)"
      for n f and v :: "'a world_scheme"
      using that is_ReturnedD[of "f (files v)"] by (auto simp: call_def)
    have t: "is_Returned (try_except_Exception (call Forecasting (forecast_main st))
        (\<lambda>e. print (''Forecast step skipped: '' @ str e)) v)" for v :: "'a world_scheme"
      using h3 by (cases "forecast_main st (files v)") (auto simp: stmt_defs)
    show ?thesis
      unfolding run_pipeline_def
      by (rule run_returns) (auto simp: c t[simplified] h1 h2 h4 h5 print_def)
  qed
  have 5: "run_pipeline st p w =
      Returned (w\<lparr>files := fe,
        trace :=
          [Stdout ''Step 1: Data Preprocessing'', Invoke Preprocessing,
           Stdout ''Step 2: Predicting Expiry Class (using saved model)'',
           Invoke ExpiryClassification,
           Stdout ''Step 3: Forecasting (using saved / skip if exists)'',
           Invoke Forecasting,
           Stdout ''Step 4: Risk Scoring'', Invoke RiskScoring,
           Stdout ''Step 5: Recommendation Engine'', Invoke Recommendation,
           Stdout ''Pipeline completed successfully. Output: data/external/recommendations.csv'']\<rparr>)"
    if "data_preprocessing_main st p (files w) = Returned fa"
      "predict_expiry_class st fa = Returned fb" "forecast_main st fb = Returned fc"
      "risk_main st fc = Returned fd" "run_recommendation_pipeline st fd = Returned fe" for p
    using that assms(2)
    by (simp add: run_pipeline_def stmt_defs progress_line_def)
  have 6: "run_pipeline st p w =
      Returned (w\<lparr>files := fe,
        trace :=
          [Stdout ''Step 1: Data Preprocessing'', Invoke Preprocessing,
           Stdout ''Step 2: Predicting Expiry Class (using saved model)'',
           Invoke ExpiryClassification,
           Stdout ''Step 3: Forecasting (using saved / skip if exists)'',
           Invoke Forecasting, Stdout (''Forecast step skipped: '' @ str e),
           Stdout ''Step 4: Risk Scoring'', Invoke RiskScoring,
           Stdout ''Step 5: Recommendation Engine'', Invoke Recommendation,
           Stdout ''Pipeline completed successfully. Output: data/external/recommendations.csv'']\<rparr>)"
    if "data_preprocessing_main st p (files w) = Returned fa"
      "predict_expiry_class st fa = Returned fb" "forecast_main st fb = Raised e fc"
      "is_Exception e"
      "risk_main st fc = Returned fd" "run_recommendation_pipeline st fd = Returned fe" for p
    using that assms(2)
    by (simp add: run_pipeline_def stmt_defs progress_line_def)
  have 7: "exception_of (run_pipeline st p w) =
           (case data_preprocessing_main st p (files w) of
              Raised x f \<Rightarrow> Some x
            | Returned f1 \<Rightarrow>
                (case predict_expiry_class st f1 of
                   Raised x f \<Rightarrow> Some x
                 | Returned f2 \<Rightarrow>
                     (case forecast_main st f2 of
                        Raised x f3 \<Rightarrow>
                          if is_Exception x then
                            (case risk_main st f3 of
                               Raised y f \<Rightarrow> Some y
                             | Returned f4 \<Rightarrow> exception_of (run_recommendation_pipeline st f4))
                          else Some x
                      | Returned f3 \<Rightarrow>
                          (case risk_main st f3 of
                             Raised y f \<Rightarrow> Some y
                           | Returned f4 \<Rightarrow> exception_of (run_recommendation_pipeline st f4)))))" for p
    by (simp add: run_pipeline_def stmt_defs split: outcome.splits)
  have 8: "files (state_of (run_pipeline st p w)) =
           (case data_preprocessing_main st p (files w) of
              Raised x f \<Rightarrow> f
            | Returned f1 \<Rightarrow>
                (case predict_expiry_class st f1 of
                   Raised x f \<Rightarrow> f
                 | Returned f2 \<Rightarrow>
                     (case forecast_main st f2 of
                        Raised x f3 \<Rightarrow>
                          if is_Exception x then
                            (case risk_main st f3 of
                               Raised y f \<Rightarrow> f
                             | Returned f4 \<Rightarrow> state_of (run_recommendation_pipeline st f4))
                          else f3
                      | Returned f3 \<Rightarrow>
                          (case risk_main st f3 of
                             Raised y f \<Rightarrow> f
                           | Returned f4 \<Rightarrow> state_of (run_recommendation_pipeline st f4)))))" for p
    by (simp add: run_pipeline_def stmt_defs split: outcome.splits)
  show ?thesis
    unfolding m using 1 2 3 4 5 6 7 8 by blast
qed

theorem main_invokes_five_stages_in_order_witness:
  "2 \<le> length [''run_pipeline.py'', ''inventory.csv''] \<and> trace empty_world = [] \<and>
   (\<forall>fs. is_Returned (data_preprocessing_main ex_stages ''inventory.csv'' fs)) \<and>
   (\<forall>fs. is_Returned (predict_expiry_class ex_stages fs)) \<and>
   (\<forall>fs e fs'. forecast_main ex_stages fs \<noteq> Raised e fs') \<and>
   (\<forall>fs. is_Returned (risk_main ex_stages fs)) \<and>
   (\<forall>fs. is_Returned (run_recommendation_pipeline ex_stages fs)) \<and>
   is_Returned (main ex_stages [''run_pipeline.py'', ''inventory.csv''] empty_world) \<and>
   announced (trace (state_of (main ex_stages [''run_pipeline.py'', ''inventory.csv''] empty_world))) \<and>
   invocations (trace (state_of (main ex_stages [''run_pipeline.py'', ''inventory.csv''] empty_world)))
     = five_stages \<and>
   data_preprocessing_main ex_stages ''inventory.csv'' (files empty_world) = Returned ex_processed \<and>
   predict_expiry_class ex_stages ex_processed = Returned ex_processed \<and>
   forecast_main ex_stages ex_processed = Returned ex_forecasted \<and>
   risk_main ex_stages ex_forecasted =
     Returned (ex_forecasted(risk_scores_csv \<mapsto> Table ex_risk)) \<and>
   run_recommendation_pipeline ex_stages (ex_forecasted(risk_scores_csv \<mapsto> Table ex_risk)) =
     Returned (ex_forecasted(risk_scores_csv \<mapsto> Table ex_risk, rec_file \<mapsto> Table ex_recs)) \<and>
   files (state_of (main ex_stages [''run_pipeline.py'', ''inventory.csv''] empty_world)) =
     ex_forecasted(risk_scores_csv \<mapsto> Table ex_risk, rec_file \<mapsto> Table ex_recs) \<and>
   forecast_main ex_forecast_fails ex_processed =
     Raised (Exn Exception ''no sales history'') ex_processed \<and>
   is_Exception (Exn Exception ''no sales history'') \<and>
   risk_main ex_forecast_fails ex_processed =
     Returned (ex_processed(risk_scores_csv \<mapsto> Table ex_risk)) \<and>
   run_recommendation_pipeline ex_forecast_fails (ex_processed(risk_scores_csv \<mapsto> Table ex_risk)) =
     Returned (ex_processed(risk_scores_csv \<mapsto> Table ex_risk, rec_file \<mapsto> Table ex_recs)) \<and>
   main ex_forecast_fails [''run_pipeline.py'', ''inventory.csv''] empty_world =
     Returned (empty_world\<lparr>
       files := ex_processed(risk_scores_csv \<mapsto> Table ex_risk, rec_file \<mapsto> Table ex_recs),
       trace :=
         [Stdout ''Step 1: Data Preprocessing'', Invoke Preprocessing,
          Stdout ''Step 2: Predicting Expiry Class (using saved model)'',
          Invoke ExpiryClassification,
          Stdout ''Step 3: Forecasting (using saved / skip if exists)'',
          Invoke Forecasting, Stdout ''Forecast step skipped: no sales history'',
          Stdout ''Step 4: Risk Scoring'', Invoke RiskScoring,
          Stdout ''Step 5: Recommendation Engine'', Invoke Recommendation,
          Stdout ''Pipeline completed successfully. Output: data/external/recommendations.csv'']\<rparr>)"
proof -
  have a: "2 \<le> length [''run_pipeline.py'', ''inventory.csv'']" "trace empty_world = []"
    by (simp_all add: empty_world_def)
  have s: "data_preprocessing_main ex_stages ''inventory.csv'' (files empty_world) = Returned ex_processed"
    "predict_expiry_class ex_stages ex_processed = Returned ex_processed"
    "forecast_main ex_stages ex_processed = Returned ex_forecasted"
    "risk_main ex_stages ex_forecasted = Returned (ex_forecasted(risk_scores_csv \<mapsto> Table ex_risk))"
    "run_recommendation_pipeline ex_stages (ex_forecasted(risk_scores_csv \<mapsto> Table ex_risk)) =
       Returned (ex_forecasted(risk_scores_csv \<mapsto> Table ex_risk, rec_file \<mapsto> Table ex_recs))"
    by (simp_all add: ex_stages_def writes_def empty_world_def ex_processed_def ex_forecasted_def)
  have f: "data_preprocessing_main ex_forecast_fails ''inventory.csv'' (files empty_world) =
       Returned ex_processed"
    "predict_expiry_class ex_forecast_fails ex_processed = Returned ex_processed"
    "forecast_main ex_forecast_fails ex_processed =
       Raised (Exn Exception ''no sales history'') ex_processed"
    "is_Exception (Exn Exception ''no sales history'')"
    "risk_main ex_forecast_fails ex_processed =
       Returned (ex_processed(risk_scores_csv \<mapsto> Table ex_risk))"
    "run_recommendation_pipeline ex_forecast_fails (ex_processed(risk_scores_csv \<mapsto> Table ex_risk)) =
       Returned (ex_processed(risk_scores_csv \<mapsto> Table ex_risk, rec_file \<mapsto> Table ex_recs))"
    by (simp_all add: ex_forecast_fails_def ex_stages_def writes_def empty_world_def
        ex_processed_def)
  have r: "(\<forall>fs. is_Returned (data_preprocessing_main ex_stages ''inventory.csv'' fs)) \<and>
      (\<forall>fs. is_Returned (predict_expiry_class ex_stages fs)) \<and>
      (\<forall>fs e fs'. forecast_main ex_stages fs \<noteq> Raised e fs') \<and>
      (\<forall>fs. is_Returned (risk_main ex_stages fs)) \<and>
      (\<forall>fs. is_Returned (run_recommendation_pipeline ex_stages fs))"
    by (simp add: ex_stages_def writes_def)
  note ok = main_invokes_five_stages_in_order[OF a, where st = ex_stages
      and fa = ex_processed and fb = ex_processed and fc = ex_forecasted
      and fd = "ex_forecasted(risk_scores_csv \<mapsto> Table ex_risk)"
      and fe = "ex_forecasted(risk_scores_csv \<mapsto> Table ex_risk, rec_file \<mapsto> Table ex_recs)"]
  note failing = main_invokes_five_stages_in_order[OF a, where st = ex_forecast_fails
      and fa = ex_processed and fb = ex_processed and fc = ex_processed
      and e = "Exn Exception ''no sales history''"
      and fd = "ex_processed(risk_scores_csv \<mapsto> Table ex_risk)"
      and fe = "ex_processed(risk_scores_csv \<mapsto> Table ex_risk, rec_file \<mapsto> Table ex_recs)"]
  have m: "main ex_stages [''run_pipeline.py'', ''inventory.csv''] empty_world =
      Returned (empty_world\<lparr>
        files := ex_forecasted(risk_scores_csv \<mapsto> Table ex_risk, rec_file \<mapsto> Table ex_recs),
        trace :=
          [Stdout ''Step 1: Data Preprocessing'', Invoke Preprocessing,
           Stdout ''Step 2: Predicting Expiry Class (using saved model)'',
           Invoke ExpiryClassification,
           Stdout ''Step 3: Forecasting (using saved / skip if exists)'',
           Invoke Forecasting,
           Stdout ''Step 4: Risk Scoring'', Invoke RiskScoring,
           Stdout ''Step 5: Recommendation Engine'', Invoke Recommendation,
           Stdout ''Pipeline completed successfully. Output: data/external/recommendations.csv'']\<rparr>)"
    using ok s by simp
  have n: "main ex_forecast_fails [''run_pipeline.py'', ''inventory.csv''] empty_world =
      Returned (empty_world\<lparr>
        files := ex_processed(risk_scores_csv \<mapsto> Table ex_risk, rec_file \<mapsto> Table ex_recs),
        trace :=
          [Stdout ''Step 1: Data Preprocessing'', Invoke Preprocessing,
           Stdout ''Step 2: Predicting Expiry Class (using saved model)'',
           Invoke ExpiryClassification,
           Stdout ''Step 3: Forecasting (using saved / skip if exists)'',
           Invoke Forecasting, Stdout ''Forecast step skipped: no sales history'',
           Stdout ''Step 4: Risk Scoring'', Invoke RiskScoring,
           Stdout ''Step 5: Recommendation Engine'', Invoke Recommendation,
           Stdout ''Pipeline completed successfully. Output: data/external/recommendations.csv'']\<rparr>)"
    using failing f by simp
  have i: "is_Returned (main ex_stages [''run_pipeline.py'', ''inventory.csv''] empty_world) \<and>
      announced (trace (state_of (main ex_stages [''run_pipeline.py'', ''inventory.csv''] empty_world))) \<and>
      invocations (trace (state_of (main ex_stages [''run_pipeline.py'', ''inventory.csv''] empty_world)))
        = five_stages"
    using ok r by simp
  have fl: "files (state_of (main ex_stages [''run_pipeline.py'', ''inventory.csv''] empty_world)) =
      ex_forecasted(risk_scores_csv \<mapsto> Table ex_risk, rec_file \<mapsto> Table ex_recs)"
    by (simp add: m)
  show ?thesis
    using a s f(3-6) r i fl n by blast
qed

section \<open>Rules for the judgements\<close>

named_theorems adds_intros
named_theorems keeps_intros

lemma addsD:
  "adds P f \<Longrightarrow> \<exists>ws. rendered (state_of (f s)) = rendered s @ ws \<and> (\<forall>w\<in>set ws. P w)"
  by (simp add: adds_def)

lemma keepsD: "keeps sel f \<Longrightarrow> sel (state_of (f s)) = sel s"
  by (simp add: keeps_def)

lemma adds_emit [adds_intros]: "P w \<Longrightarrow> adds P (emit w)"
  by (simp add: adds_def emit_def)

lemma adds_run_Nil [adds_intros]: "adds P (run [])"
  by (simp add: adds_def)

lemma adds_run_Cons [adds_intros]:
  assumes "adds P f" and "adds P (run fs)"
  shows "adds P (run (f # fs))"
  unfolding adds_def
proof
  fix s
  from addsD[OF assms(1), of s] obtain ws
    where ws: "rendered (state_of (f s)) = rendered s @ ws" "\<forall>w\<in>set ws. P w"
    by blast
  show "\<exists>ws. rendered (state_of (run (f # fs) s)) = rendered s @ ws \<and> (\<forall>w\<in>set ws. P w)"
  proof (cases "f s")
    case (Returned s')
    from addsD[OF assms(2), of s'] obtain vs
      where vs: "rendered (state_of (run fs s')) = rendered s' @ vs" "\<forall>w\<in>set vs. P w"
      by blast
    with ws Returned show ?thesis by (intro exI[of _ "ws @ vs"]) auto
  next
    case (Raised e s')
    with ws show ?thesis by auto
  qed
qed

lemma adds_if_else [adds_intros]:
  "adds P (run ts) \<Longrightarrow> adds P (run es) \<Longrightarrow> adds P (if_else c ts es)"
  by (auto simp: adds_def if_else_def split: sum.splits)

lemma adds_need [adds_intros]: "adds P (need n v cls cs)"
  by (auto simp: adds_def need_def split: option.splits list.splits)

lemma adds_render_with [adds_intros]: "(\<And>df. P (mk df)) \<Longrightarrow> adds P (render_with n v mk)"
  by (auto simp: adds_def render_with_def emit_def split: option.splits)

lemma adds_assign [adds_intros]:
  "(\<And>g s. rendered (upd g s) = rendered s) \<Longrightarrow> adds P (assign upd e)"
  by (auto simp: adds_def assign_def split: sum.splits)

lemma adds_to_csv_file [adds_intros]: "adds P (to_csv_file n v p)"
  by (auto simp: adds_def to_csv_file_def split: option.splits)

lemma adds_call [adds_intros]: "adds P (call n f)"
  by (auto simp: adds_def call_def split: outcome.splits)

lemma adds_app_pipeline [adds_intros]: "adds P (app_pipeline st)"
  unfolding app_pipeline_def by (intro adds_intros)

lemma keeps_emit [keeps_intros]: "(\<And>g s. sel (rendered_update g s) = sel s) \<Longrightarrow> keeps sel (emit w)"
  by (simp add: keeps_def emit_def)

lemma keeps_run_Nil [keeps_intros]: "keeps sel (run [])"
  by (simp add: keeps_def)

lemma keeps_run_Cons [keeps_intros]:
  assumes "keeps sel f" and "keeps sel (run fs)"
  shows "keeps sel (run (f # fs))"
  unfolding keeps_def
proof
  fix s
  show "sel (state_of (run (f # fs) s)) = sel s"
    using keepsD[OF assms(1), of s] keepsD[OF assms(2)]
    by (cases "f s") auto
qed

lemma keeps_if_else [keeps_intros]:
  "keeps sel (run ts) \<Longrightarrow> keeps sel (run es) \<Longrightarrow> keeps sel (if_else c ts es)"
  by (auto simp: keeps_def if_else_def split: sum.splits)

lemma keeps_need [keeps_intros]: "keeps sel (need n v cls cs)"
  by (auto simp: keeps_def need_def split: option.splits list.splits)

lemma keeps_render_with [keeps_intros]:
  "(\<And>g s. sel (rendered_update g s) = sel s) \<Longrightarrow> keeps sel (render_with n v mk)"
  by (auto simp: keeps_def render_with_def emit_def split: option.splits)

lemma keeps_assign [keeps_intros]:
  "(\<And>g s. sel (upd g s) = sel s) \<Longrightarrow> keeps sel (assign upd e)"
  by (auto simp: keeps_def assign_def split: sum.splits)

lemma keeps_to_csv_file [keeps_intros]:
  "(\<And>g s. sel (files_update g s) = sel s) \<Longrightarrow> keeps sel (to_csv_file n v p)"
  by (auto simp: keeps_def to_csv_file_def split: option.splits)

lemma keeps_call [keeps_intros]:
  "(\<And>g s. sel (files_update g s) = sel s) \<Longrightarrow> (\<And>g s. sel (trace_update g s) = sel s) \<Longrightarrow>
   keeps sel (call n f)"
  by (auto simp: keeps_def call_def split: outcome.splits)

lemmas section_defs = upload_section_def risk_levels_section_def recommendations_section_def
  additional_insights_def enhanced_insights_section_def key_metrics_section_def
  predictive_insights_section_def forecasting_section_def risk_scoring_section_def
  optimization_section_def

lemmas widget_defs = download_button_def recommendations_missing_def key_metrics_heading_def
  forecasting_heading_def date_missing_def risk_scoring_heading_def risk_score_missing_def
  optimization_heading_def footer_def

lemma display_keeps_files: "keeps files (run (display_sections inp))"
  unfolding display_sections_def section_defs
  by (intro keeps_intros; simp)

text \<open>
  A run that has rendered an element which its first statements never render has got past
  them.
\<close>

lemma reach:
  assumes "adds P (run pre)" and "\<not> P h" and "\<forall>w\<in>set (rendered s). P w"
    and "h \<in> set (rendered (state_of (run (pre @ rest) s)))"
  shows "\<exists>s1. run pre s = Returned s1 \<and> run (pre @ rest) s = run rest s1"
proof (cases "run pre s")
  case (Returned s1)
  then show ?thesis by (simp add: run_append)
next
  case (Raised e s1)
  from addsD[OF assms(1), of s] Raised obtain ws
    where "rendered s1 = rendered s @ ws" "\<forall>w\<in>set ws. P w"
    by auto
  moreover have "h \<in> set (rendered s1)"
    using assms(4) Raised by (simp add: run_append)
  ultimately show ?thesis
    using assms(2,3) by auto
qed

section \<open>The page as a whole\<close>

lemma app_without_upload:
  "uploaded_file inp = None \<Longrightarrow>
   app st inp s = Returned (s\<lparr>rendered := rendered s @ page_header
      @ [Info ''Please upload a CSV file to get started.'']\<rparr>)"
  by (simp add: app_def emit_def if_else_def page_header_def)

lemma app_with_upload:
  "uploaded_file inp \<noteq> None \<Longrightarrow>
   app st inp s = run (upload_section st inp # display_sections inp)
      (s\<lparr>rendered := rendered s @ page_header\<rparr>)"
  by (auto simp add: app_def emit_def if_else_def page_header_def split: outcome.splits)

lemma key_metrics_section_eq:
  "key_metrics_section s =
     Returned (s\<lparr>rendered := rendered s @ key_metrics_heading # key_metrics\<rparr>)"
  by (simp add: key_metrics_section_def emit_def key_metrics_def)

lemmas page_defs = app_def display_sections_def section_defs app_pipeline_def
  emit_def render_with_def assign_def need_def if_else_def to_csv_file_def call_def
  read_csv_def read_csv_buffer_def exists_def with_df_def has_columns_def fresh_def
  filter_by_actions_def column_values_def unique_def where_isin_def selection_def cell_def
  head_def select_columns_def map_column_def

lemmas ex_defs = ex_stages_def ex_forecast_fails_def ex_no_recs_def ex_no_risk_def
  ex_no_forecast_def ex_undated_def ex_upload_def writes_def
  ex_inventory_def ex_risk_def ex_forecast_def ex_recs_def empty_world_def
  uploaded_file_path_def risk_scores_csv_def rec_file_def forecast_csv_def

lemma ex_page_returns: "is_Returned (app ex_stages ex_upload (fresh Map.empty))"
  by (simp add: page_defs ex_defs)

section \<open>The key metrics\<close>

text \<open>
  C9. The metric cards of a rerun are the three constants \<open>1,000\<close> Total Products, \<open>50\<close>
  Expired Items and \<open>200\<close> Near-Expiry Items, whatever was uploaded and whatever the stages
  did: the cards rendered are exactly these three when the run reached the Key Metrics
  heading and none otherwise, and a run on an uploaded file that returns has reached it.
\<close>

theorem key_metrics_are_constants:
  "filter is_Metric (rendered (state_of (app st inp (fresh fs0)))) =
     (if key_metrics_heading \<in> set (rendered (state_of (app st inp (fresh fs0))))
      then key_metrics else []) \<and>
   (uploaded_file inp \<noteq> None \<and> is_Returned (app st inp (fresh fs0)) \<longrightarrow>
      key_metrics_heading \<in> set (rendered (state_of (app st inp (fresh fs0)))))"
proof (cases "uploaded_file inp")
  case None
  then show ?thesis
    by (simp add: app_without_upload fresh_def page_header_def key_metrics_heading_def)
next
  case (Some c)
  define P where "P = (\<lambda>w. \<not> is_Metric w \<and> w \<noteq> key_metrics_heading)"
  define pre where "pre = [upload_section st inp, risk_levels_section, recommendations_section,
    enhanced_insights_section inp]"
  define post where "post = [predictive_insights_section inp, forecasting_section,
    risk_scoring_section, optimization_section, emit footer]"
  define s0 where "s0 = (fresh fs0)\<lparr>rendered := rendered (fresh fs0) @ page_header\<rparr>"
  have pre: "adds P (run pre)"
    unfolding pre_def section_defs P_def
    by (intro adds_intros; simp add: widget_defs)
  have post: "adds P (run post)"
    unfolding post_def section_defs P_def
    by (intro adds_intros; simp add: widget_defs)
  have app: "app st inp (fresh fs0) = run (pre @ key_metrics_section # post) s0"
    using Some by (simp add: app_with_upload display_sections_def pre_def post_def s0_def)
  have s0: "\<forall>w\<in>set (rendered s0). P w"
    by (simp add: s0_def fresh_def page_header_def P_def key_metrics_heading_def)
  from addsD[OF pre, of s0] obtain ws1 where
    ws1: "rendered (state_of (run pre s0)) = rendered s0 @ ws1" "\<forall>w\<in>set ws1. P w"
    by blast
  have km: "filter is_Metric key_metrics = key_metrics"
    by (simp add: key_metrics_def)
  show ?thesis
  proof (cases "run pre s0")
    case (Raised e s1)
    then have "app st inp (fresh fs0) = Raised e s1"
      by (simp add: app run_append)
    moreover have "rendered s1 = rendered s0 @ ws1"
      using ws1 Raised by simp
    ultimately show ?thesis
      using s0 ws1(2) by (auto simp: P_def filter_empty_conv)
  next
    case (Returned s1)
    define s2 where "s2 = s1\<lparr>rendered := rendered s1 @ key_metrics_heading # key_metrics\<rparr>"
    have a: "app st inp (fresh fs0) = run post s2"
      using Returned by (simp add: app run_append key_metrics_section_eq s2_def)
    from addsD[OF post, of s2] obtain ws2 where
      ws2: "rendered (state_of (run post s2)) = rendered s2 @ ws2" "\<forall>w\<in>set ws2. P w"
      by blast
    have r: "rendered (state_of (app st inp (fresh fs0))) =
        rendered s0 @ ws1 @ key_metrics_heading # key_metrics @ ws2"
      using ws1 ws2 Returned by (simp add: a s2_def)
    have "filter is_Metric (rendered s0) = []" "filter is_Metric ws1 = []"
      "filter is_Metric ws2 = []"
      using s0 ws1(2) ws2(2) by (auto simp: P_def filter_empty_conv)
    then show ?thesis
      by (simp add: r km) (simp add: key_metrics_heading_def)
  qed
qed

theorem key_metrics_are_constants_witness:
  "uploaded_file ex_upload \<noteq> None \<and> is_Returned (app ex_stages ex_upload (fresh Map.empty)) \<and>
   filter is_Metric (rendered (state_of (app ex_stages ex_upload (fresh Map.empty)))) =
     [Metric ''Total Products'' ''1,000'', Metric ''Expired Items'' ''50'',
      Metric ''Near-Expiry Items'' ''200'']"
  using key_metrics_are_constants[of ex_stages ex_upload Map.empty] ex_page_returns
  by (simp add: ex_upload_def key_metrics_def)

section \<open>Failure containment in the two invocations of the pipeline\<close>

text \<open>
  What a run of \<^verbatim>\<open>run_pipeline\<close> ends with, stage by stage: an exception of the forecaster
  that is an \<^verbatim>\<open>Exception\<close> is the only one the run survives.
\<close>

lemma run_pipeline_exception:
  "exception_of (run_pipeline st p w) =
     (case data_preprocessing_main st p (files w) of
        Raised e f \<Rightarrow> Some e
      | Returned f1 \<Rightarrow>
          (case predict_expiry_class st f1 of
             Raised e f \<Rightarrow> Some e
           | Returned f2 \<Rightarrow>
               (case forecast_main st f2 of
                  Raised e f3 \<Rightarrow>
                    if is_Exception e then
                      (case risk_main st f3 of
                         Raised e f \<Rightarrow> Some e
                       | Returned f4 \<Rightarrow> exception_of (run_recommendation_pipeline st f4))
                    else Some e
                | Returned f3 \<Rightarrow>
                    (case risk_main st f3 of
                       Raised e f \<Rightarrow> Some e
                     | Returned f4 \<Rightarrow> exception_of (run_recommendation_pipeline st f4)))))"
  by (simp add: run_pipeline_def stmt_defs split: outcome.splits)

lemma forecast_failure_is_logged:
  assumes "forecast_main st (files w) = Raised e fs'" and "is_Exception e"
  shows "try_except_Exception (call Forecasting (forecast_main st))
           (\<lambda>e. print (''Forecast step skipped: '' @ str e)) w =
         Returned (w\<lparr>files := fs',
           trace := trace w @ [Invoke Forecasting, Stdout (''Forecast step skipped: '' @ str e)]\<rparr>)"
  using assms by (simp add: stmt_defs)

text \<open>The four calls of the page: every exception ends them, the forecaster's too.\<close>

lemma app_pipeline_exception:
  "exception_of (app_pipeline st w) =
     (case data_preprocessing_main st uploaded_file_path (files w) of
        Raised e f \<Rightarrow> Some e
      | Returned f1 \<Rightarrow>
          (case forecast_main st f1 of
             Raised e f \<Rightarrow> Some e
           | Returned f3 \<Rightarrow>
               (case risk_main st f3 of
                  Raised e f \<Rightarrow> Some e
                | Returned f4 \<Rightarrow> exception_of (run_recommendation_pipeline st f4))))"
  by (simp add: app_pipeline_def call_def split: outcome.splits)

text \<open>
  C1. A run of the pipeline survives a failure of the forecaster and of no other stage. That
  holds of \<^verbatim>\<open>run_pipeline\<close> and fails in the page, whose own four calls have no \<^verbatim>\<open>try\<close>: with a
  forecaster that raises an ordinary exception, the command-line run logs the failure and goes
  on to score and recommend, and the page stops at the forecaster with that exception.
\<close>

theorem forecast_failure_aborts_the_page:
  "(\<exists>s. app ex_forecast_fails ex_upload (fresh Map.empty) =
         Raised (Exn Exception ''no sales history'') s \<and>
       invocations (trace s) = [Preprocessing, Forecasting]) \<and>
   (\<exists>w. main ex_forecast_fails [''run_pipeline.py'', uploaded_file_path] empty_world = Returned w \<and>
       invocations (trace w) =
         [Preprocessing, ExpiryClassification, Forecasting, RiskScoring, Recommendation] \<and>
       Stdout ''Forecast step skipped: no sales history'' \<in> set (trace w))"
  by (simp add: page_defs ex_defs main_def run_pipeline_def stmt_defs)

section \<open>The page against the command-line entry point\<close>

lemma upload_section_invocations:
  "trace s = [] \<Longrightarrow>
   prefix (invocations (trace (state_of (upload_section st inp s)))) four_stages_of_the_page"
  by (auto simp: upload_section_def app_pipeline_def emit_def assign_def to_csv_file_def
      call_def read_csv_buffer_def four_stages_of_the_page_def
      split: outcome.splits sum.splits option.splits content.splits)

lemma display_keeps_trace: "keeps trace (run (display_sections inp))"
  unfolding display_sections_def section_defs
  by (intro keeps_intros; simp)

lemma app_invocations:
  "prefix (invocations (trace (state_of (app st inp (fresh fs0))))) four_stages_of_the_page"
proof (cases "uploaded_file inp")
  case None
  then show ?thesis by (simp add: app_without_upload fresh_def)
next
  case (Some c)
  define s0 where "s0 = (fresh fs0)\<lparr>rendered := rendered (fresh fs0) @ page_header\<rparr>"
  have t: "trace s0 = []" by (simp add: s0_def fresh_def)
  have a: "app st inp (fresh fs0) = run (upload_section st inp # display_sections inp) s0"
    using Some by (simp add: app_with_upload s0_def)
  show ?thesis
  proof (cases "upload_section st inp s0")
    case (Returned s1)
    then have "trace (state_of (app st inp (fresh fs0))) = trace s1"
      using keepsD[OF display_keeps_trace, of inp s1] by (simp add: a)
    with upload_section_invocations[OF t, of st inp] Returned show ?thesis by simp
  next
    case (Raised e s1)
    with upload_section_invocations[OF t, of st inp] show ?thesis by (simp add: a)
  qed
qed

text \<open>
  C2. The upload handler of the page is to run the pipeline of the command-line entry point:
  the same stages in the same order. It does not. Whatever is uploaded, the stages the page
  invokes are an initial part of preprocessing, forecasting, risk scoring, recommendation; the
  expiry classification is never among them. On the example upload, where every stage returns,
  the page invokes four stages and the entry point, given the file the page saved, five.
\<close>

theorem page_skips_expiry_classification:
  "prefix (invocations (trace (state_of (app st inp (fresh fs0)))))
     [Preprocessing, Forecasting, RiskScoring, Recommendation] \<and>
   invocations (trace (state_of (app ex_stages ex_upload (fresh Map.empty)))) =
     [Preprocessing, Forecasting, RiskScoring, Recommendation] \<and>
   invocations (trace (state_of
       (main ex_stages [''run_pipeline.py'', uploaded_file_path] empty_world))) =
     [Preprocessing, ExpiryClassification, Forecasting, RiskScoring, Recommendation]"
proof -
  have "invocations (trace (state_of (app ex_stages ex_upload (fresh Map.empty)))) =
      [Preprocessing, Forecasting, RiskScoring, Recommendation]"
    by (simp add: page_defs ex_defs)
  moreover have "invocations (trace (state_of
       (main ex_stages [''run_pipeline.py'', uploaded_file_path] empty_world))) =
     [Preprocessing, ExpiryClassification, Forecasting, RiskScoring, Recommendation]"
    by (simp add: ex_defs main_def run_pipeline_def stmt_defs)
  ultimately show ?thesis
    using app_invocations[of st inp fs0] by (simp add: four_stages_of_the_page_def)
qed

section \<open>Missing columns and the missing recommendations file\<close>

text \<open>
  The two column checks do what they are meant to do: a forecast without the column \<open>Date\<close>,
  or an upload without the column \<open>Risk_Score\<close>, gives an inline error box, and the section
  returns, so that the page goes on.
\<close>

lemma forecasting_section_without_Date:
  assumes "files s forecast_csv = Some (Table df)" and "''Date'' \<notin> set (columns df)"
  shows "forecasting_section s =
     Returned (s\<lparr>rendered := rendered s @
         [forecasting_heading, Write ''Forecast DataFrame Columns:'' (columns df), date_missing],
       forecast_df := Some df\<rparr>)"
  using assms
  by (simp add: forecasting_section_def emit_def assign_def render_with_def if_else_def
      read_csv_def has_columns_def with_df_def)

lemma risk_scoring_section_without_Risk_Score:
  assumes "uploaded_df s = Some df" and "''Risk_Score'' \<notin> set (columns df)"
  shows "risk_scoring_section s =
     Returned (s\<lparr>rendered := rendered s @
         [risk_scoring_heading, Write ''Uploaded DataFrame Columns:'' (columns df),
          risk_score_missing]\<rparr>)"
  using assms
  by (simp add: risk_scoring_section_def emit_def render_with_def if_else_def
      has_columns_def with_df_def)

text \<open>
  On the example upload, which has no column \<open>Risk_Score\<close>, and a forecast without \<open>Date\<close>,
  both boxes are rendered and the page is rendered to its footer.
\<close>

lemma missing_columns_leave_the_page_standing:
  "\<exists>s. app ex_undated ex_upload (fresh Map.empty) = Returned s \<and>
     date_missing \<in> set (rendered s) \<and> risk_score_missing \<in> set (rendered s) \<and>
     last (rendered s) = footer"
  by (simp add: page_defs ex_defs widget_defs)

text \<open>
  The missing file is another matter. Both blocks that read it are guarded, and the first
  renders the warning; the last section reads the variable \<^verbatim>\<open>rec_df\<close> that only those
  blocks bind.
\<close>

lemma recommendations_section_without_file:
  assumes "files s rec_file = None"
  shows "recommendations_section s =
     Returned (s\<lparr>rendered := rendered s @ [Subheader ''Recommendations'', recommendations_missing]\<rparr>)"
  using assms
  by (simp add: recommendations_section_def emit_def if_else_def exists_def)

lemma enhanced_insights_section_without_file:
  assumes "files s rec_file = None"
  shows "enhanced_insights_section inp s =
     Returned (s\<lparr>rendered := rendered s @ [Subheader ''Enhanced Insights and Filters'']\<rparr>)"
  using assms
  by (simp add: enhanced_insights_section_def emit_def if_else_def exists_def)

lemma optimization_section_unbound:
  assumes "rec_df s = None"
  shows "optimization_section s =
     Raised (Exn NameError ''rec_df'') (s\<lparr>rendered := rendered s @ [optimization_heading]\<rparr>)"
  using assms
  by (simp add: optimization_section_def emit_def if_else_def has_columns_def with_df_def)

lemma run_append_Returned:
  assumes "is_Returned (run (xs @ ys) s)"
  shows "\<exists>s'. run xs s = Returned s' \<and> is_Returned (run ys s')"
  using assms by (cases "run xs s") (simp_all add: run_append)

text \<open>
  Whatever the stages do and whatever is uploaded, a rerun that ends without a
  recommendations file does not reach the end of the page.
\<close>

lemma page_never_completes_without_recommendations:
  assumes up: "uploaded_file inp \<noteq> None"
    and absent: "files (state_of (app st inp (fresh fs0))) rec_file = None"
  shows "\<not> is_Returned (app st inp (fresh fs0))"
proof
  assume ret: "is_Returned (app st inp (fresh fs0))"
  define A where "A = [upload_section st inp, risk_levels_section]"
  define B where "B = [recommendations_section, enhanced_insights_section inp]"
  define C where "C = [key_metrics_section, predictive_insights_section inp, forecasting_section,
    risk_scoring_section]"
  define D where "D = [optimization_section, emit footer]"
  define s0 where "s0 = (fresh fs0)\<lparr>rendered := rendered (fresh fs0) @ page_header\<rparr>"
  have app: "app st inp (fresh fs0) = run (A @ B @ C @ D) s0"
    using up by (simp add: app_with_upload display_sections_def A_def B_def C_def D_def s0_def)
  have kA: "keeps rec_df (run A)"
    unfolding A_def section_defs app_pipeline_def by (intro keeps_intros; simp)
  have kC: "keeps rec_df (run C)"
    unfolding C_def section_defs by (intro keeps_intros; simp)
  have kf: "keeps files (run (B @ C @ D))"
    unfolding B_def C_def D_def section_defs append.simps by (intro keeps_intros; simp)
  from run_append_Returned[OF ret[unfolded app]] obtain s1
    where s1: "run A s0 = Returned s1" "is_Returned (run (B @ C @ D) s1)"
    by blast
  have "app st inp (fresh fs0) = run (B @ C @ D) s1"
    using s1(1) by (simp add: app run_append)
  with absent keepsD[OF kf, of s1] have f1: "files s1 rec_file = None"
    by simp
  have r1: "rec_df s1 = None"
    using keepsD[OF kA, of s0] s1(1) by (simp add: s0_def fresh_def)
  from run_append_Returned[OF s1(2)] obtain s2
    where s2: "run B s1 = Returned s2" "is_Returned (run (C @ D) s2)"
    by blast
  have r2: "rec_df s2 = None"
    using s2(1) f1 r1
    by (auto simp: B_def recommendations_section_without_file
        enhanced_insights_section_without_file)
  from run_append_Returned[OF s2(2)] obtain s3
    where s3: "run C s2 = Returned s3" "is_Returned (run D s3)"
    by blast
  have "rec_df s3 = None"
    using keepsD[OF kC, of s2] s3(1) r2 by simp
  then have "\<not> is_Returned (run D s3)"
    by (simp add: D_def optimization_section_unbound)
  with s3(2) show False by simp
qed

text \<open>
  C7. A missing column, or a missing recommendations file, is to give an inline message and
  leave the rest of the page standing. For the file the page fails to: with a recommender that
  writes no file, the warning is rendered and the page goes on up to the heading of its last
  section, where the unbound \<^verbatim>\<open>rec_df\<close> raises \<open>NameError\<close>; the table of that section
  and the footer are never rendered.
\<close>

theorem missing_recommendations_file_aborts_the_page:
  "\<exists>s. app ex_no_recs ex_upload (fresh Map.empty) = Raised (Exn NameError ''rec_df'') s \<and>
     files s rec_file = None \<and>
     recommendations_missing \<in> set (rendered s) \<and>
     last (rendered s) = optimization_heading \<and>
     footer \<notin> set (rendered s)"
  by (simp add: page_defs ex_defs widget_defs)

section \<open>Reads with and without an existence check\<close>

named_theorems raises_intros

lemma raisesD: "raises E f \<Longrightarrow> f s = Raised e s' \<Longrightarrow> E e"
  by (auto simp: raises_def)

lemma raises_emit [raises_intros]: "raises E (emit w)"
  by (simp add: raises_def emit_def)

lemma raises_run_Nil [raises_intros]: "raises E (run [])"
  by (simp add: raises_def)

lemma raises_run_Cons [raises_intros]:
  "raises E f \<Longrightarrow> raises E (run fs) \<Longrightarrow> raises E (run (f # fs))"
  by (auto simp: raises_def split: outcome.splits)

lemma raises_need [raises_intros]:
  "(\<And>m. E (Exn NameError m)) \<Longrightarrow> (\<And>m. E (Exn cls m)) \<Longrightarrow> raises E (need n v cls cs)"
  by (auto simp: raises_def need_def split: option.splits list.splits)

lemma raises_render_with [raises_intros]:
  "(\<And>m. E (Exn NameError m)) \<Longrightarrow> raises E (render_with n v mk)"
  by (auto simp: raises_def render_with_def emit_def split: option.splits)

lemma raises_assign_with_df [raises_intros]:
  "(\<And>m. E (Exn NameError m)) \<Longrightarrow> raises E (assign upd (with_df n v f))"
  by (auto simp: raises_def assign_def with_df_def split: option.splits sum.splits)

lemma raises_assign_filter_by_actions [raises_intros]:
  "(\<And>m. E (Exn NameError m)) \<Longrightarrow> raises E (assign upd (filter_by_actions inp))"
  by (auto simp: raises_def assign_def filter_by_actions_def with_df_def
      split: option.splits sum.splits)

lemma raises_assign_read_csv [raises_intros]:
  "E (Exn FileNotFoundError p) \<Longrightarrow> E (Exn ParserError p) \<Longrightarrow> raises E (assign upd (read_csv p))"
  by (auto simp: raises_def assign_def read_csv_def split: option.splits content.splits sum.splits)

lemma raises_if_has_columns [raises_intros]:
  "(\<And>m. E (Exn NameError m)) \<Longrightarrow> raises E (run ts) \<Longrightarrow> raises E (run es) \<Longrightarrow>
   raises E (if_else (has_columns n v cs) ts es)"
  by (auto simp: raises_def if_else_def has_columns_def with_df_def split: option.splits sum.splits)

lemma raises_if_pure [raises_intros]:
  "raises E (run ts) \<Longrightarrow> raises E (run es) \<Longrightarrow> raises E (if_else (\<lambda>s. Inr b) ts es)"
  by (auto simp: raises_def if_else_def)

text \<open>
  The read under \<^verbatim>\<open>if os.path.exists(p)\<close>: whatever the state, it does not raise
  \<open>FileNotFoundError\<close>.
\<close>

lemma raises_guarded_read [raises_intros]:
  assumes "E (Exn ParserError p)" and "raises E (run rest)" and "raises E (run es)"
  shows "raises E (if_else (exists p) (assign upd (read_csv p) # rest) es)"
  unfolding raises_def
proof (intro allI impI)
  fix s e s'
  assume r: "if_else (exists p) (assign upd (read_csv p) # rest) es s = Raised e s'"
  show "E e"
  proof (cases "files s p")
    case None
    with r have "run es s = Raised e s'"
      by (simp add: if_else_def exists_def)
    with assms(3) show ?thesis by (rule raisesD)
  next
    case (Some c)
    show ?thesis
    proof (cases c)
      case Unparsable
      with Some r have "e = Exn ParserError p"
        by (simp add: if_else_def exists_def assign_def read_csv_def)
      with assms(1) show ?thesis by simp
    next
      case (Table df)
      with Some r have "run rest (upd (\<lambda>_. Some df) s) = Raised e s'"
        by (simp add: if_else_def exists_def assign_def read_csv_def)
      with assms(2) show ?thesis by (rule raisesD)
    qed
  qed
qed

lemma display_never_misses_rec_file:
  "raises (\<lambda>e. e \<noteq> Exn FileNotFoundError rec_file) (run (display_sections inp))"
  unfolding display_sections_def section_defs
  by (intro raises_intros; simp add: risk_scores_csv_def rec_file_def forecast_csv_def)

lemma risk_levels_section_without_file:
  assumes "files s risk_scores_csv = None"
  shows "risk_levels_section s =
     Raised (Exn FileNotFoundError risk_scores_csv)
       (s\<lparr>rendered := rendered s @ [Subheader ''Risk Levels'']\<rparr>)"
  using assms by (simp add: risk_levels_section_def emit_def assign_def read_csv_def)

lemma forecasting_section_without_file:
  assumes "files s forecast_csv = None"
  shows "forecasting_section s =
     Raised (Exn FileNotFoundError forecast_csv)
       (s\<lparr>rendered := rendered s @ [forecasting_heading]\<rparr>)"
  using assms by (simp add: forecasting_section_def emit_def assign_def read_csv_def)

lemma app_reaches:
  assumes "uploaded_file inp \<noteq> None" and "display_sections inp = pre @ rest"
    and "adds P (run (upload_section st inp # pre))" and "\<not> P h" and "\<forall>w\<in>set page_header. P w"
    and "keeps files (run rest)"
    and "h \<in> set (rendered (state_of (app st inp (fresh fs0))))"
  shows "\<exists>s1. app st inp (fresh fs0) = run rest s1 \<and>
           files s1 = files (state_of (app st inp (fresh fs0)))"
proof -
  define s0 where "s0 = (fresh fs0)\<lparr>rendered := rendered (fresh fs0) @ page_header\<rparr>"
  have a: "app st inp (fresh fs0) = run ((upload_section st inp # pre) @ rest) s0"
    using assms(1,2) by (simp add: app_with_upload s0_def)
  have "\<forall>w\<in>set (rendered s0). P w"
    using assms(5) by (simp add: s0_def fresh_def)
  from reach[OF assms(3,4) this, of rest] assms(7) obtain s1
    where s1: "run (upload_section st inp # pre) s0 = Returned s1"
      "app st inp (fresh fs0) = run rest s1"
    unfolding a by blast
  show ?thesis
    using s1(2) keepsD[OF assms(6), of s1] by auto
qed
text \<open>
  C10. After the pipeline the page reads the risk scores and the forecast without asking
  whether the file is there; only the recommendations file is read under an existence check.
  A section's heading is among the rendered elements exactly when the run reached the
  section, and nothing after the stage calls writes a file, so the files at the end are those
  the pipeline left. With \<open>r\<close> the outcome of a rerun:
  \<^item> if the run reached the Risk Levels subheader and the risk scores file is absent, the read
    raises \<open>FileNotFoundError\<close> for it and the subheader is the last element rendered;
  \<^item> if the run reached the forecasting heading and the forecast file is absent, the read
    raises \<open>FileNotFoundError\<close> for it and the heading is the last element rendered;
  \<^item> once the pipeline is through, no read raises \<open>FileNotFoundError\<close> for the recommendations
    file; and if the run reached the Recommendations subheader and that file is absent, the
    warning is rendered and the page goes on, at least to the Key Metrics heading.
\<close>

theorem unguarded_reads_abort_the_page:
  assumes "app st inp (fresh fs0) = r"
  shows
    "(Subheader ''Risk Levels'' \<in> set (rendered (state_of r)) \<and>
        files (state_of r) risk_scores_csv = None \<longrightarrow>
      exception_of r = Some (Exn FileNotFoundError risk_scores_csv) \<and>
      last (rendered (state_of r)) = Subheader ''Risk Levels'') \<and>
     (forecasting_heading \<in> set (rendered (state_of r)) \<and>
        files (state_of r) forecast_csv = None \<longrightarrow>
      exception_of r = Some (Exn FileNotFoundError forecast_csv) \<and>
      last (rendered (state_of r)) = forecasting_heading) \<and>
     (Subheader ''Risk Levels'' \<in> set (rendered (state_of r)) \<longrightarrow>
      exception_of r \<noteq> Some (Exn FileNotFoundError rec_file)) \<and>
     (Subheader ''Recommendations'' \<in> set (rendered (state_of r)) \<and>
        files (state_of r) rec_file = None \<longrightarrow>
      recommendations_missing \<in> set (rendered (state_of r)) \<and>
      key_metrics_heading \<in> set (rendered (state_of r)))"
proof (cases "uploaded_file inp")
  case None
  then have "rendered (state_of r) =
      page_header @ [Info ''Please upload a CSV file to get started.'']"
    using assms by (auto simp: app_without_upload fresh_def)
  then show ?thesis
    by (simp add: page_header_def forecasting_heading_def)
next
  case (Some c)
  then have up: "uploaded_file inp \<noteq> None" by simp
  note r = assms[symmetric]
  have 1: "exception_of r = Some (Exn FileNotFoundError risk_scores_csv) \<and>
      last (rendered (state_of r)) = Subheader ''Risk Levels''"
    if h: "Subheader ''Risk Levels'' \<in> set (rendered (state_of r))"
      and f: "files (state_of r) risk_scores_csv = None"
  proof -
    have "adds (\<lambda>w. w \<noteq> Subheader ''Risk Levels'') (run (upload_section st inp # []))"
      unfolding section_defs by (intro adds_intros; simp)
    from app_reaches[OF up _ this _ _ display_keeps_files[of inp], of "Subheader ''Risk Levels''" fs0]
    obtain s1 where s1: "r = run (display_sections inp) s1" "files s1 = files (state_of r)"
      using h unfolding r by (auto simp: page_header_def)
    have "files s1 risk_scores_csv = None" using f s1(2) by simp
    then show ?thesis
      unfolding s1(1)
      by (simp add: display_sections_def risk_levels_section_without_file)
  qed
  have 2: "exception_of r = Some (Exn FileNotFoundError forecast_csv) \<and>
      last (rendered (state_of r)) = forecasting_heading"
    if h: "forecasting_heading \<in> set (rendered (state_of r))"
      and f: "files (state_of r) forecast_csv = None"
  proof -
    define pre where "pre = [risk_levels_section, recommendations_section,
      enhanced_insights_section inp, key_metrics_section, predictive_insights_section inp]"
    define rest where "rest = [forecasting_section, risk_scoring_section, optimization_section,
      emit footer]"
    have d: "display_sections inp = pre @ rest"
      by (simp add: display_sections_def pre_def rest_def)
    have a: "adds (\<lambda>w. w \<noteq> forecasting_heading) (run (upload_section st inp # pre))"
      unfolding pre_def section_defs by (intro adds_intros; simp add: widget_defs)
    have k: "keeps files (run rest)"
      unfolding rest_def section_defs by (intro keeps_intros; simp)
    from app_reaches[OF up d a _ _ k, of forecasting_heading fs0]
    obtain s1 where s1: "r = run rest s1" "files s1 = files (state_of r)"
      using h unfolding r by (auto simp: page_header_def forecasting_heading_def)
    have "files s1 forecast_csv = None" using f s1(2) by simp
    then show ?thesis
      unfolding s1(1) by (simp add: rest_def forecasting_section_without_file)
  qed
  have 3: "exception_of r \<noteq> Some (Exn FileNotFoundError rec_file)"
    if h: "Subheader ''Risk Levels'' \<in> set (rendered (state_of r))"
  proof -
    have "adds (\<lambda>w. w \<noteq> Subheader ''Risk Levels'') (run (upload_section st inp # []))"
      unfolding section_defs by (intro adds_intros; simp)
    from app_reaches[OF up _ this _ _ display_keeps_files[of inp], of "Subheader ''Risk Levels''" fs0]
    obtain s1 where s1: "r = run (display_sections inp) s1"
      using h unfolding r by (auto simp: page_header_def)
    show ?thesis
    proof (cases r)
      case (Returned s')
      then show ?thesis by simp
    next
      case (Raised e s')
      then have "run (display_sections inp) s1 = Raised e s'"
        using s1 by simp
      from raisesD[OF display_never_misses_rec_file this] Raised show ?thesis by simp
    qed
  qed
  have 4: "recommendations_missing \<in> set (rendered (state_of r)) \<and>
      key_metrics_heading \<in> set (rendered (state_of r))"
    if h: "Subheader ''Recommendations'' \<in> set (rendered (state_of r))"
      and f: "files (state_of r) rec_file = None"
  proof -
    define rest where "rest = [recommendations_section, enhanced_insights_section inp,
      key_metrics_section, predictive_insights_section inp, forecasting_section,
      risk_scoring_section, optimization_section, emit footer]"
    define post where "post = [predictive_insights_section inp, forecasting_section,
      risk_scoring_section, optimization_section, emit footer]"
    have d: "display_sections inp = [risk_levels_section] @ rest"
      by (simp add: display_sections_def rest_def)
    have a: "adds (\<lambda>w. w \<noteq> Subheader ''Recommendations'')
        (run (upload_section st inp # [risk_levels_section]))"
      unfolding section_defs by (intro adds_intros; simp)
    have k: "keeps files (run rest)"
      unfolding rest_def section_defs by (intro keeps_intros; simp)
    from app_reaches[OF up d a _ _ k, of "Subheader ''Recommendations''" fs0]
    obtain s1 where s1: "r = run rest s1" "files s1 = files (state_of r)"
      using h unfolding r by (auto simp: page_header_def)
    have n: "files s1 rec_file = None" using f s1(2) by simp
    define s4 where "s4 = s1\<lparr>rendered := rendered s1 @
      [Subheader ''Recommendations'', recommendations_missing,
       Subheader ''Enhanced Insights and Filters''] @ key_metrics_heading # key_metrics\<rparr>"
    have "r = run post s4"
      unfolding s1(1) rest_def post_def s4_def using n
      by (simp add: recommendations_section_without_file enhanced_insights_section_without_file
          key_metrics_section_eq)
    moreover have "adds (\<lambda>w. True) (run post)"
      unfolding post_def section_defs by (intro adds_intros; simp)
    from addsD[OF this, of s4] obtain ws where "rendered (state_of (run post s4)) = rendered s4 @ ws"
      by blast
    ultimately show ?thesis by (simp add: s4_def)
  qed
  show ?thesis using 1 2 3 4 by blast
qed

theorem unguarded_reads_abort_the_page_witness:
  "Subheader ''Risk Levels'' \<in> set (rendered (state_of (app ex_no_risk ex_upload (fresh Map.empty)))) \<and>
   files (state_of (app ex_no_risk ex_upload (fresh Map.empty))) risk_scores_csv = None \<and>
   exception_of (app ex_no_risk ex_upload (fresh Map.empty)) =
     Some (Exn FileNotFoundError risk_scores_csv) \<and>
   forecasting_heading \<in> set (rendered (state_of (app ex_no_forecast ex_upload (fresh Map.empty)))) \<and>
   files (state_of (app ex_no_forecast ex_upload (fresh Map.empty))) forecast_csv = None \<and>
   exception_of (app ex_no_forecast ex_upload (fresh Map.empty)) =
     Some (Exn FileNotFoundError forecast_csv) \<and>
   Subheader ''Recommendations'' \<in> set (rendered (state_of (app ex_no_recs ex_upload (fresh Map.empty)))) \<and>
   files (state_of (app ex_no_recs ex_upload (fresh Map.empty))) rec_file = None \<and>
   recommendations_missing \<in> set (rendered (state_of (app ex_no_recs ex_upload (fresh Map.empty)))) \<and>
   exception_of (app ex_no_recs ex_upload (fresh Map.empty)) \<noteq> Some (Exn FileNotFoundError rec_file)"
proof -
  have "\<exists>e s. app ex_no_risk ex_upload (fresh Map.empty) = Raised e s \<and>
      Subheader ''Risk Levels'' \<in> set (rendered s) \<and> files s risk_scores_csv = None"
    by (simp add: page_defs ex_defs)
  then have a: "Subheader ''Risk Levels'' \<in> set (rendered (state_of (app ex_no_risk ex_upload (fresh Map.empty)))) \<and>
      files (state_of (app ex_no_risk ex_upload (fresh Map.empty))) risk_scores_csv = None"
    by auto
  have "\<exists>e s. app ex_no_forecast ex_upload (fresh Map.empty) = Raised e s \<and>
      forecasting_heading \<in> set (rendered s) \<and> files s forecast_csv = None"
    by (simp add: page_defs ex_defs widget_defs)
  then have b: "forecasting_heading \<in> set (rendered (state_of (app ex_no_forecast ex_upload (fresh Map.empty)))) \<and>
      files (state_of (app ex_no_forecast ex_upload (fresh Map.empty))) forecast_csv = None"
    by auto
  have "\<exists>e s. app ex_no_recs ex_upload (fresh Map.empty) = Raised e s \<and>
      Subheader ''Recommendations'' \<in> set (rendered s) \<and>
      Subheader ''Risk Levels'' \<in> set (rendered s) \<and> files s rec_file = None"
    by (simp add: page_defs ex_defs widget_defs)
  then have c: "Subheader ''Recommendations'' \<in> set (rendered (state_of (app ex_no_recs ex_upload (fresh Map.empty)))) \<and>
      Subheader ''Risk Levels'' \<in> set (rendered (state_of (app ex_no_recs ex_upload (fresh Map.empty)))) \<and>
      files (state_of (app ex_no_recs ex_upload (fresh Map.empty))) rec_file = None"
    by auto
  show ?thesis
    using a b c
      unguarded_reads_abort_the_page[OF refl, of ex_no_risk ex_upload Map.empty]
      unguarded_reads_abort_the_page[OF refl, of ex_no_forecast ex_upload Map.empty]
      unguarded_reads_abort_the_page[OF refl, of ex_no_recs ex_upload Map.empty]
    by blast
qed

section \<open>The download\<close>

lemma additional_insights_no_download:
  "adds (\<lambda>w. \<not> is_DownloadButton w) additional_insights"
  unfolding additional_insights_def by (intro adds_intros; simp)

lemma recommendations_section_rendered:
  "\<exists>ws. rendered (state_of (recommendations_section s)) =
          rendered s @ Subheader ''Recommendations'' # ws \<and>
        filter is_DownloadButton ws =
          (case files s rec_file of Some (Table t) \<Rightarrow> [download_button t] | _ \<Rightarrow> [])"
proof (cases "files s rec_file")
  case None
  then show ?thesis
    by (simp add: recommendations_section_without_file recommendations_missing_def)
next
  case (Some c)
  show ?thesis
  proof (cases c)
    case Unparsable
    with Some show ?thesis
      by (simp add: recommendations_section_def emit_def if_else_def exists_def assign_def
          read_csv_def)
  next
    case (Table t)
    define s' where "s' = s\<lparr>rec_df := Some t, rendered := rendered s @
        [Subheader ''Recommendations'', Dataframe (Frame (head 10 t)), download_button t]\<rparr>"
    have r: "recommendations_section s = additional_insights s'"
      using Some Table
      by (auto simp add: recommendations_section_def emit_def if_else_def exists_def assign_def
          read_csv_def render_with_def s'_def split: outcome.splits)
    from addsD[OF additional_insights_no_download, of s'] obtain ws
      where ws: "rendered (state_of (additional_insights s')) = rendered s' @ ws"
        "\<forall>w\<in>set ws. \<not> is_DownloadButton w"
      by blast
    have "filter is_DownloadButton ws = []"
      using ws(2) by (auto simp: filter_empty_conv)
    then show ?thesis
      using Some Table ws(1)
      by (simp add: r s'_def download_button_def)
  qed
qed

text \<open>
  C8. What the page offers for download is the recommendation table it read: the download
  buttons of a rerun are exactly one, carrying \<^verbatim>\<open>to_csv(index=False).encode('utf-8')\<close> of the
  table in the recommendations file, when the run reached the Recommendations subheader and
  the file holds a table, and none otherwise. The table is the one the file holds at the end,
  which is the one the page read, since nothing after the stage calls writes a file.
\<close>

theorem download_is_the_recommendation_table:
  "filter is_DownloadButton (rendered (state_of (app st inp (fresh fs0)))) =
     (if Subheader ''Recommendations'' \<in> set (rendered (state_of (app st inp (fresh fs0)))) then
        (case files (state_of (app st inp (fresh fs0))) rec_file of
           Some (Table t) \<Rightarrow>
             [DownloadButton ''Download Recommendations CSV'' (Encode (To_csv t False) ''utf-8'')
                ''recommendations.csv'' ''text/csv'']
         | _ \<Rightarrow> [])
      else [])"
proof (cases "uploaded_file inp")
  case None
  then show ?thesis
    by (simp add: app_without_upload fresh_def page_header_def)
next
  case (Some c)
  define P where "P = (\<lambda>w. \<not> is_DownloadButton w \<and> w \<noteq> Subheader ''Recommendations'')"
  define pre where "pre = [upload_section st inp, risk_levels_section]"
  define post where "post = [enhanced_insights_section inp, key_metrics_section,
    predictive_insights_section inp, forecasting_section, risk_scoring_section,
    optimization_section, emit footer]"
  define s0 where "s0 = (fresh fs0)\<lparr>rendered := rendered (fresh fs0) @ page_header\<rparr>"
  have pre: "adds P (run pre)"
    unfolding pre_def section_defs P_def by (intro adds_intros; simp)
  have post: "adds P (run post)"
    unfolding post_def section_defs P_def by (intro adds_intros; simp add: widget_defs)
  have kpost: "keeps files (run post)"
    unfolding post_def section_defs by (intro keeps_intros; simp)
  have krecs: "keeps files recommendations_section"
    unfolding section_defs by (intro keeps_intros; simp)
  have app: "app st inp (fresh fs0) = run (pre @ recommendations_section # post) s0"
    using Some by (simp add: app_with_upload display_sections_def pre_def post_def s0_def)
  have s0: "\<forall>w\<in>set (rendered s0). P w"
    by (simp add: s0_def fresh_def page_header_def P_def)
  from addsD[OF pre, of s0] obtain ws1 where
    ws1: "rendered (state_of (run pre s0)) = rendered s0 @ ws1" "\<forall>w\<in>set ws1. P w"
    by blast
  have f0: "filter is_DownloadButton (rendered s0) = []" "filter is_DownloadButton ws1 = []"
    using s0 ws1(2) by (auto simp: P_def filter_empty_conv)
  show ?thesis
  proof (cases "run pre s0")
    case (Raised e s1)
    then have "app st inp (fresh fs0) = Raised e s1"
      by (simp add: app run_append)
    moreover have "rendered s1 = rendered s0 @ ws1"
      using ws1 Raised by simp
    ultimately show ?thesis
      using s0 ws1(2) f0 by (auto simp: P_def)
  next
    case (Returned s1)
    from recommendations_section_rendered[of s1] obtain ws where
      ws: "rendered (state_of (recommendations_section s1)) =
          rendered s1 @ Subheader ''Recommendations'' # ws"
        "filter is_DownloadButton ws =
          (case files s1 rec_file of Some (Table t) \<Rightarrow> [download_button t] | _ \<Rightarrow> [])"
      by blast
    have "\<exists>ws2. rendered (state_of (app st inp (fresh fs0))) =
          rendered s1 @ Subheader ''Recommendations'' # ws @ ws2 \<and>
        filter is_DownloadButton ws2 = [] \<and>
        files (state_of (app st inp (fresh fs0))) = files s1"
    proof (cases "recommendations_section s1")
      case (Raised e s2)
      then have "app st inp (fresh fs0) = Raised e s2"
        using Returned by (simp add: app run_append)
      then show ?thesis
        using ws(1) Raised keepsD[OF krecs, of s1] by simp
    next
      case r: (Returned s2)
      then have a: "app st inp (fresh fs0) = run post s2"
        using Returned by (simp add: app run_append)
      from addsD[OF post, of s2] obtain ws2 where
        ws2: "rendered (state_of (run post s2)) = rendered s2 @ ws2" "\<forall>w\<in>set ws2. P w"
        by blast
      have "filter is_DownloadButton ws2 = []"
        using ws2(2) by (auto simp: P_def filter_empty_conv)
      then show ?thesis
        using ws(1) r ws2(1) keepsD[OF krecs, of s1] keepsD[OF kpost, of s2]
        by (simp add: a)
    qed
    then obtain ws2 where
      fin: "rendered (state_of (app st inp (fresh fs0))) =
          rendered s1 @ Subheader ''Recommendations'' # ws @ ws2"
        "filter is_DownloadButton ws2 = []"
        "files (state_of (app st inp (fresh fs0))) = files s1"
      by blast
    have "rendered s1 = rendered s0 @ ws1"
      using ws1 Returned by simp
    then show ?thesis
      using f0 ws(2)
      by (auto simp add: fin download_button_def split: option.splits content.splits)
  qed
qed

theorem download_is_the_recommendation_table_witness:
  "Subheader ''Recommendations'' \<in> set (rendered (state_of (app ex_stages ex_upload (fresh Map.empty)))) \<and>
   files (state_of (app ex_stages ex_upload (fresh Map.empty))) rec_file = Some (Table ex_recs) \<and>
   filter is_DownloadButton (rendered (state_of (app ex_stages ex_upload (fresh Map.empty)))) =
     [DownloadButton ''Download Recommendations CSV'' (Encode (To_csv ex_recs False) ''utf-8'')
        ''recommendations.csv'' ''text/csv'']"
proof -
  have "\<exists>s. app ex_stages ex_upload (fresh Map.empty) = Returned s \<and>
      Subheader ''Recommendations'' \<in> set (rendered s) \<and>
      files s rec_file = Some (Table ex_recs)"
    by (simp add: page_defs ex_defs widget_defs)
  then have a: "Subheader ''Recommendations'' \<in> set (rendered (state_of (app ex_stages ex_upload (fresh Map.empty)))) \<and>
      files (state_of (app ex_stages ex_upload (fresh Map.empty))) rec_file = Some (Table ex_recs)"
    by auto
  show ?thesis
    using a download_is_the_recommendation_table[of ex_stages ex_upload Map.empty]
    by simp
qed

section \<open>The stages as specified\<close>

lemma risk_level_mono:
  "medium_from \<le> high_from \<Longrightarrow> s \<le> s' \<Longrightarrow>
   rank (risk_level_of medium_from high_from s) \<le> rank (risk_level_of medium_from high_from s')"
  by (auto simp: risk_level_of_def)

lemma risk_table_level:
  "r \<in> set (risk_table medium_from high_from scores) \<Longrightarrow>
   Risk_Level r = risk_level_of medium_from high_from (Risk_Score r)"
  by (auto simp: risk_table_def)

text \<open>
  C4. The level of a row is a function of its score alone: it is the category that the two
  thresholds assign to the score, one of Low, Medium and High, so that two rows with equal
  scores, of one risk table or of two made with the same thresholds, have equal levels.
\<close>

theorem risk_level_is_a_function_of_the_score:
  assumes "r1 \<in> set (risk_table medium_from high_from scores1)"
    and "r2 \<in> set (risk_table medium_from high_from scores2)"
    and "Risk_Score r1 = Risk_Score r2"
  shows "Risk_Level r1 = Risk_Level r2 \<and>
         Risk_Level r1 = risk_level_of medium_from high_from (Risk_Score r1) \<and>
         Risk_Level r1 \<in> {Low, Medium, High}"
proof -
  have "Risk_Level r1 \<in> {Low, Medium, High}"
    by (cases "Risk_Level r1") simp_all
  with assms risk_table_level[OF assms(1)] risk_table_level[OF assms(2)]
  show ?thesis by simp
qed

theorem risk_level_is_a_function_of_the_score_witness:
  "\<lparr>product = ''Milk'', Risk_Score = 9, Risk_Level = High\<rparr>
     \<in> set (risk_table (4::int) 7 [(''Milk'', 9), (''Rice'', 2)]) \<and>
   \<lparr>product = ''Eggs'', Risk_Score = 9, Risk_Level = High\<rparr>
     \<in> set (risk_table (4::int) 7 [(''Eggs'', 9)]) \<and>
   Risk_Level \<lparr>product = ''Milk'', Risk_Score = (9::int), Risk_Level = High\<rparr> =
     Risk_Level \<lparr>product = ''Eggs'', Risk_Score = (9::int), Risk_Level = High\<rparr> \<and>
   risk_level_of (4::int) 7 9 = High"
  using risk_level_is_a_function_of_the_score
    [of "\<lparr>product = ''Milk'', Risk_Score = 9, Risk_Level = High\<rparr>" "4::int" 7
        "[(''Milk'', 9), (''Rice'', 2)]"
        "\<lparr>product = ''Eggs'', Risk_Score = 9, Risk_Level = High\<rparr>" "[(''Eggs'', 9)]"]
  by (simp add: risk_table_def risk_level_of_def)

text \<open>
  C5. Every product of the recommendations is a product of the risk table, since a
  recommendation is made from a risk record; it is a product of the forecast as well.
\<close>

theorem recommended_products_are_risk_products:
  "set (map rec_product (recommend decide risks forecasts)) \<subseteq> set (map product risks) \<and>
   set (map rec_product (recommend decide risks forecasts)) \<subseteq> set (map fc_product forecasts)"
proof -
  have "rec_product x \<in> product ` set risks \<and> rec_product x \<in> fc_product ` set forecasts"
    if "x \<in> set (recommend decide risks forecasts)" for x
  proof -
    from that obtain r where r: "r \<in> set risks"
      and x: "x \<in> set (case filter (\<lambda>f. fc_product f = product r) forecasts of
          [] \<Rightarrow> []
        | fps \<Rightarrow> [\<lparr>rec_product = product r, Predicted_Action = fst (decide r fps),
              Predicted_Discount_Percent = snd (decide r fps)\<rparr>])"
      by (auto simp: recommend_def)
    show ?thesis
    proof (cases "filter (\<lambda>f. fc_product f = product r) forecasts")
      case Nil
      with x show ?thesis by simp
    next
      case (Cons f fps)
      with x have xp: "rec_product x = product r" by simp
      have "f \<in> set (filter (\<lambda>f. fc_product f = product r) forecasts)"
        by (simp add: Cons)
      then have "f \<in> set forecasts" "fc_product f = product r" by auto
      with r xp show ?thesis by force
    qed
  qed
  then show ?thesis by auto
qed

theorem recommended_products_are_risk_products_witness:
  "map rec_product
     (recommend (\<lambda>r fps. (''Discount'', 30::nat))
        [\<lparr>product = ''Milk'', Risk_Score = 9::int, Risk_Level = High\<rparr>,
         \<lparr>product = ''Rice'', Risk_Score = 2, Risk_Level = Low\<rparr>]
        [\<lparr>fc_product = ''Milk'', date = ''2025-10-09'', predicted_quantity = 3::nat\<rparr>]) = [''Milk''] \<and>
   set (map rec_product
     (recommend (\<lambda>r fps. (''Discount'', 30::nat))
        [\<lparr>product = ''Milk'', Risk_Score = 9::int, Risk_Level = High\<rparr>,
         \<lparr>product = ''Rice'', Risk_Score = 2, Risk_Level = Low\<rparr>]
        [\<lparr>fc_product = ''Milk'', date = ''2025-10-09'', predicted_quantity = 3::nat\<rparr>]))
     \<subseteq> {''Milk'', ''Rice''}"
  using recommended_products_are_risk_products
    [of "\<lambda>r fps. (''Discount'', 30::nat)"
        "[\<lparr>product = ''Milk'', Risk_Score = 9::int, Risk_Level = High\<rparr>,
          \<lparr>product = ''Rice'', Risk_Score = 2, Risk_Level = Low\<rparr>]"
        "[\<lparr>fc_product = ''Milk'', date = ''2025-10-09'', predicted_quantity = 3::nat\<rparr>]"]
  by (simp add: recommend_def)

lemma output_paths_distinct:
  "forecast_csv \<noteq> risk_scores_csv" "forecast_csv \<noteq> rec_file" "risk_scores_csv \<noteq> rec_file"
  by (simp_all add: forecast_csv_def risk_scores_csv_def rec_file_def)

text \<open>
  C6. With stages as the specification describes them, each a deterministic transform from
  the files at its input paths to the file at its output path, a second run of
  \<^verbatim>\<open>run_pipeline\<close> on the same input changes nothing: started on the files the first run left,
  with the input file at a path that no stage writes, it leaves every file, the four outputs
  among them, as the first run left it, and it ends as the first run ended.
\<close>

theorem rerun_leaves_the_outputs_unchanged:
  assumes "p \<notin> {processed_csv, forecast_csv, risk_scores_csv, rec_file}"
  shows "files (state_of (run_pipeline (spec_stages T processed_csv) p
            (state_of (run_pipeline (spec_stages T processed_csv) p w)))) =
         files (state_of (run_pipeline (spec_stages T processed_csv) p w)) \<and>
         exception_of (run_pipeline (spec_stages T processed_csv) p
            (state_of (run_pipeline (spec_stages T processed_csv) p w))) =
         exception_of (run_pipeline (spec_stages T processed_csv) p w)"
  using assms output_paths_distinct
  by (auto simp: run_pipeline_def spec_stages_def file_stage_def stmt_defs
      split: sum.splits outcome.splits if_splits)

theorem rerun_leaves_the_outputs_unchanged_witness:
  "''inventory.csv'' \<notin> {''data/processed/processed_data.csv'', forecast_csv, risk_scores_csv, rec_file} \<and>
   files (state_of (run_pipeline (spec_stages ex_transforms ''data/processed/processed_data.csv'')
       ''inventory.csv'' ex_disk)) rec_file = Some (Table ex_recs) \<and>
   files (state_of (run_pipeline (spec_stages ex_transforms ''data/processed/processed_data.csv'')
       ''inventory.csv''
       (state_of (run_pipeline (spec_stages ex_transforms ''data/processed/processed_data.csv'')
          ''inventory.csv'' ex_disk)))) =
   files (state_of (run_pipeline (spec_stages ex_transforms ''data/processed/processed_data.csv'')
       ''inventory.csv'' ex_disk))"
proof -
  have h: "''inventory.csv'' \<notin>
      {''data/processed/processed_data.csv'', forecast_csv, risk_scores_csv, rec_file}"
    by (simp add: forecast_csv_def risk_scores_csv_def rec_file_def)
  have e: "files (state_of (run_pipeline (spec_stages ex_transforms ''data/processed/processed_data.csv'')
       ''inventory.csv'' ex_disk)) rec_file = Some (Table ex_recs)"
    by (simp add: run_pipeline_def spec_stages_def file_stage_def stmt_defs ex_transforms_def
        ex_disk_def ex_inventory_def forecast_csv_def risk_scores_csv_def rec_file_def)
  show ?thesis
    using h e rerun_leaves_the_outputs_unchanged[OF h, of ex_transforms ex_disk]
    by blast
qed

end
